theory Spec2Isabelle
  imports Main "HOL-Library.Char_ord" "HOL-Library.List_Lexorder"
begin

section \<open>The filesystem tool server (demos/mcp/mcp_filesystem_server.py)\<close>

text \<open>
  The server offers three tools, \<open>list_directory\<close>, \<open>read_file\<close> and \<open>get_file_info\<close>,
  over one allowed directory. This theory embeds \<open>resolve_path\<close>, the three handlers and
  \<open>call_tool\<close>. What they call of the operating system (resolving a path, \<open>stat\<close>,
  \<open>listdir\<close>, \<open>open\<close>, the rendering of a time stamp) is a parameter, the environment
  \<open>os_env\<close>: every property below holds whatever the operating system answers, as long as
  it answers the same to the same question during one call of a tool. The
  methods of \<open>pathlib.Path\<close> between the handlers and the operating system (\<open>exists\<close>,
  \<open>is_dir\<close>, \<open>is_file\<close>, \<open>iterdir\<close>) are embedded as Python 3.11 defines them, on POSIX.

  A Python \<open>str\<close> is a HOL \<open>string\<close>; one \<open>char\<close> stands for one code point, so the
  model has the code points below U+0100. Floating-point argument values are left out.
\<close>

subsection \<open>Python values, exceptions and text results\<close>

text \<open>The values a JSON argument dictionary can hold (\<open>arguments: dict[str, Any]\<close>).\<close>

datatype pyval =
    PNone
  | PBool bool
  | PInt int
  | PStr string
  | PList "pyval list"
  | PDict "(string \<times> pyval) list"

type_synonym arguments = "string \<rightharpoonup> pyval"

text \<open>\<open>arguments.get(key, default)\<close>; \<open>arguments.get(key)\<close> has the default \<open>None\<close>.\<close>

definition dict_get :: "arguments \<Rightarrow> string \<Rightarrow> pyval \<Rightarrow> pyval" where
  "dict_get d k dflt = (case d k of None \<Rightarrow> dflt | Some v \<Rightarrow> v)"

text \<open>Truth value of a Python object, as \<open>not path\<close> tests it.\<close>

fun truthy :: "pyval \<Rightarrow> bool" where
  "truthy PNone = False"
| "truthy (PBool b) = b"
| "truthy (PInt n) = (n \<noteq> 0)"
| "truthy (PStr s) = (s \<noteq> [])"
| "truthy (PList xs) = (xs \<noteq> [])"
| "truthy (PDict kvs) = (kvs \<noteq> [])"

fun type_name :: "pyval \<Rightarrow> string" where
  "type_name PNone = ''NoneType''"
| "type_name (PBool b) = ''bool''"
| "type_name (PInt n) = ''int''"
| "type_name (PStr s) = ''str''"
| "type_name (PList xs) = ''list''"
| "type_name (PDict kvs) = ''dict''"

text \<open>
  Exceptions, all of them subclasses of \<open>Exception\<close>. An \<open>OSError\<close> carries its \<open>errno\<close>
  and the text \<open>str(e)\<close>; it stands for its subclasses too (\<open>PermissionError\<close>,
  \<open>FileNotFoundError\<close>). \<open>UnicodeDecodeError\<close> is a subclass of \<open>ValueError\<close>, kept
  apart because \<open>handle_read_file\<close> catches it by name. \<open>OtherError\<close> is any other
  subclass of \<open>Exception\<close> (\<open>OverflowError\<close>, \<open>MemoryError\<close>). Every other constructor
  carries the text \<open>str(e)\<close>.
\<close>

datatype exn =
    OSError nat string
  | ValueError string
  | UnicodeDecodeError string
  | TypeError string
  | RuntimeError string
  | OtherError string

fun exn_str :: "exn \<Rightarrow> string" where
  "exn_str (OSError errno m) = m"
| "exn_str (ValueError m) = m"
| "exn_str (UnicodeDecodeError m) = m"
| "exn_str (TypeError m) = m"
| "exn_str (RuntimeError m) = m"
| "exn_str (OtherError m) = m"

text \<open>\<open>TextContent(type=..., text=...)\<close>.\<close>

datatype text_content = TextContent (tc_type: string) (tc_text: string)

text \<open>Decimal text of an integer, as an f-string prints it.\<close>

definition digit_char :: "nat \<Rightarrow> char" where
  "digit_char d = ''0123456789'' ! d"

function str_nat :: "nat \<Rightarrow> string" where
  "str_nat n = (if n < 10 then [digit_char n] else str_nat (n div 10) @ [digit_char (n mod 10)])"
  by pat_completeness auto
termination
  by (relation "measure id") auto

declare str_nat.simps [simp del]

definition str_int :: "int \<Rightarrow> string" where
  "str_int i = (if i < 0 then CHR ''-'' # str_nat (nat (- i)) else str_nat (nat i))"

text \<open>
  \<open>f"{v}"\<close>. The handlers format a \<open>path\<close> only after \<open>resolve_path\<close> has returned,
  which it does for a string only, and \<open>max_lines\<close> only after \<open>i >= max_lines\<close> has held,
  which needs an \<open>int\<close> or a \<open>bool\<close>: a list or a dictionary is never formatted, and
  its text stands for itself here.
\<close>

fun py_str :: "pyval \<Rightarrow> string" where
  "py_str (PStr s) = s"
| "py_str (PInt n) = str_int n"
| "py_str (PBool b) = (if b then ''True'' else ''False'')"
| "py_str PNone = ''None''"
| "py_str (PList xs) = ''[...]''"
| "py_str (PDict kvs) = ''{...}''"

text \<open>A text between single quotes, as the message of a \<open>TypeError\<close> shows a name.\<close>

definition quoted :: "string \<Rightarrow> string" where
  "quoted s = CHR 0x27 # s @ [CHR 0x27]"

text \<open>\<open>sep.join(items)\<close>.\<close>

fun str_join :: "string \<Rightarrow> string list \<Rightarrow> string" where
  "str_join sep [] = []"
| "str_join sep [x] = x"
| "str_join sep (x # y # ys) = x @ sep @ str_join sep (y # ys)"

text \<open>\<open>s.startswith(p)\<close>.\<close>

definition startswith :: "string \<Rightarrow> string \<Rightarrow> bool" where
  "startswith s p = (take (length p) s = p)"

text \<open>
  \<open>str.isspace\<close> on one character, and \<open>s.rstrip()\<close>, which removes every trailing
  whitespace character (the line terminator among them).
\<close>

definition isspace :: "char \<Rightarrow> bool" where
  "isspace c = (of_char c \<in> set [9, 10, 11, 12, 13, 28, 29, 30, 31, 32, 133, 160 :: nat])"

definition rstrip :: "string \<Rightarrow> string" where
  "rstrip s = rev (dropWhile isspace (rev s))"

text \<open>
  \<open>i >= max_lines\<close> with \<open>i\<close> an \<open>int\<close>: defined for \<open>int\<close> and \<open>bool\<close> (a subclass of
  \<open>int\<close>), a \<open>TypeError\<close> for every other type.
\<close>

fun int_ge :: "int \<Rightarrow> pyval \<Rightarrow> exn + bool" where
  "int_ge i (PInt n) = Inr (i \<ge> n)"
| "int_ge i (PBool b) = Inr (i \<ge> (if b then 1 else 0))"
| "int_ge i v = Inl (TypeError (quoted ''>='' @ '' not supported between instances of ''
       @ quoted ''int'' @ '' and '' @ quoted (type_name v)))"

subsection \<open>Paths\<close>

text \<open>A resolved \<open>Path\<close>: the components of an absolute path, \<open>[]\<close> for \<open>/\<close>.\<close>

type_synonym path = "string list"

text \<open>\<open>str(p)\<close> and \<open>p.name\<close> of a resolved path.\<close>

definition str_path :: "path \<Rightarrow> string" where
  "str_path p = (if p = [] then ''/'' else concat (map (\<lambda>c. CHR ''/'' # c) p))"

definition path_name :: "path \<Rightarrow> string" where
  "path_name p = (if p = [] then [] else last p)"

text \<open>\<open>os.path.isabs\<close> (POSIX).\<close>

fun isabs :: "string \<Rightarrow> bool" where
  "isabs [] = False"
| "isabs (c # cs) = (c = CHR ''/'')"

text \<open>\<open>s.split('/')\<close>.\<close>

fun splitsep :: "string \<Rightarrow> string list" where
  "splitsep [] = [[]]"
| "splitsep (c # cs) =
     (if c = CHR ''/'' then [] # splitsep cs
      else (case splitsep cs of [] \<Rightarrow> [[c]] | w # ws \<Rightarrow> (c # w) # ws))"

text \<open>
  \<open>a / p\<close> for an absolute path \<open>a\<close> and a \<open>p\<close> that is not absolute, as the text of the
  new \<open>Path\<close>: \<open>pathlib\<close> splits \<open>p\<close> at the separators, drops the empty components and
  the components \<open>.\<close>, keeps \<open>..\<close>, and appends the rest to the components of \<open>a\<close>.
\<close>

definition posix_parts :: "string \<Rightarrow> string list" where
  "posix_parts p = filter (\<lambda>c. c \<noteq> [] \<and> c \<noteq> ''.'') (splitsep p)"

definition joinpath :: "path \<Rightarrow> string \<Rightarrow> string" where
  "joinpath a p = str_path (a @ posix_parts p)"

subsection \<open>The operating system\<close>

text \<open>
  What \<open>os.stat\<close> returns, as far as the handlers read it: the kind of the file in
  \<open>st_mode\<close>, \<open>st_size\<close>, and \<open>st_mtime\<close>, which is a whole number of seconds here.
\<close>

datatype file_kind = S_IFREG | S_IFDIR | S_IFOTHER

record stat_result =
  st_mode :: file_kind
  st_size :: nat
  st_mtime :: int

text \<open>
  What iterating \<open>open(path, 'r', encoding='utf-8')\<close> produces: the lines that decode (each
  with its line terminator), then either the end of the file or an exception. A file whose
  bytes are not valid UTF-8 ends in a \<open>UnicodeDecodeError\<close>. The reader decodes the file
  buffer by buffer as the loop asks for lines, so the lines that come before the error are
  those completed in the buffers read before the invalid bytes.
\<close>

datatype text_stream = TextStream (good_lines: "string list") (failure: "exn option")

text \<open>
  The environment of the serving process.
  \<^item> \<open>cwd\<close>: \<open>os.getcwd()\<close>, a resolved path.
  \<^item> \<open>resolve_abs s\<close>: \<open>Path(s).resolve()\<close> for an absolute \<open>s\<close>: the canonical path, symbolic
    links followed, or the exception raised (\<open>RuntimeError\<close> for a loop of links,
    \<open>ValueError\<close> for an embedded null character).
  \<^item> \<open>os_stat p\<close>: \<open>os.stat(p)\<close>, which follows symbolic links.
  \<^item> \<open>os_listdir p\<close>: \<open>os.listdir(p)\<close>, the names of the entries (\<open>.\<close> and \<open>..\<close> are not
    among them) in the order the system gives them.
  \<^item> \<open>os_open p\<close>: \<open>open(p, 'r', encoding='utf-8')\<close>.
  \<^item> \<open>isoformat t\<close>: \<open>datetime.fromtimestamp(t).isoformat()\<close>, in the local time zone;
    \<open>fromtimestamp\<close> raises for a time stamp out of its range.
\<close>

record os_env =
  cwd :: path
  resolve_abs :: "string \<Rightarrow> exn + path"
  os_stat :: "path \<Rightarrow> exn + stat_result"
  os_listdir :: "path \<Rightarrow> exn + string list"
  os_open :: "path \<Rightarrow> exn + text_stream"
  isoformat :: "int \<Rightarrow> exn + string"

subsection \<open>Effects: results, exceptions and the calls made to the file system\<close>

text \<open>
  Every call the server makes to the file system is recorded. A computation yields a value
  or an exception, and the calls it made, in order.
\<close>

datatype io_event =
    EvResolve string
  | EvStat path
  | EvListdir path
  | EvOpen path

type_synonym 'a io = "(exn + 'a) \<times> io_event list"

definition io_return :: "'a \<Rightarrow> 'a io" where
  "io_return x = (Inr x, [])"

definition io_raise :: "exn \<Rightarrow> 'a io" where
  "io_raise e = (Inl e, [])"

definition io_bind :: "'a io \<Rightarrow> ('a \<Rightarrow> 'b io) \<Rightarrow> 'b io" where
  "io_bind m f =
     (case m of
        (Inl e, t) \<Rightarrow> (Inl e, t)
      | (Inr x, t) \<Rightarrow> (case f x of (r, t') \<Rightarrow> (r, t @ t')))"

text \<open>\<open>try: body except UnicodeDecodeError: return v\<close>.\<close>

definition except_unicode_decode_error :: "'a io \<Rightarrow> 'a \<Rightarrow> 'a io" where
  "except_unicode_decode_error body v =
     (case body of
        (Inl (UnicodeDecodeError m), t) \<Rightarrow> (Inr v, t)
      | (r, t) \<Rightarrow> (r, t))"

subsection \<open>The methods of \<open>Path\<close> the handlers call\<close>

text \<open>
  \<open>Path(s).resolve()\<close>. The current working directory is a resolved path, so resolving a
  relative \<open>s\<close> is resolving it joined to the current working directory.
\<close>

definition resolve :: "os_env \<Rightarrow> string \<Rightarrow> exn + path" where
  "resolve env s = resolve_abs env (if isabs s then s else joinpath (cwd env) s)"

definition path_resolve :: "os_env \<Rightarrow> string \<Rightarrow> path io" where
  "path_resolve env s = (resolve env s, [EvResolve s])"

text \<open>
  \<open>Path.exists\<close>, \<open>Path.is_dir\<close> and \<open>Path.is_file\<close> call \<open>stat\<close>. They answer
  \<open>False\<close> when it raises an \<open>OSError\<close> whose \<open>errno\<close> is \<open>ENOENT\<close> (2), \<open>ENOTDIR\<close> (20),
  \<open>EBADF\<close> (9) or \<open>ELOOP\<close> (40), or a \<open>ValueError\<close>, and raise every other exception again
  (\<open>EACCES\<close> under a directory that may not be searched, \<open>ENAMETOOLONG\<close> for a long name).
\<close>

fun ignore_error :: "exn \<Rightarrow> bool" where
  "ignore_error (OSError errno m) = (errno \<in> set [2, 20, 9, 40])"
| "ignore_error (ValueError m) = True"
| "ignore_error (UnicodeDecodeError m) = True"
| "ignore_error e = False"

definition path_stat :: "os_env \<Rightarrow> path \<Rightarrow> stat_result io" where
  "path_stat env p = (os_stat env p, [EvStat p])"

definition stat_test :: "os_env \<Rightarrow> path \<Rightarrow> (stat_result \<Rightarrow> bool) \<Rightarrow> bool io" where
  "stat_test env p test =
     (case os_stat env p of
        Inr st \<Rightarrow> Inr (test st)
      | Inl e \<Rightarrow> if ignore_error e then Inr False else Inl e,
      [EvStat p])"

definition path_exists :: "os_env \<Rightarrow> path \<Rightarrow> bool io" where
  "path_exists env p = stat_test env p (\<lambda>st. True)"

definition is_dir :: "os_env \<Rightarrow> path \<Rightarrow> bool io" where
  "is_dir env p = stat_test env p (\<lambda>st. st_mode st = S_IFDIR)"

definition is_file :: "os_env \<Rightarrow> path \<Rightarrow> bool io" where
  "is_file env p = stat_test env p (\<lambda>st. st_mode st = S_IFREG)"

text \<open>
  \<open>sorted(dir_path.iterdir())\<close>: \<open>iterdir\<close> calls \<open>os.listdir\<close> and yields one child path
  for each name; children of one directory are ordered by their names.
\<close>

definition iterdir_sorted :: "os_env \<Rightarrow> path \<Rightarrow> path list io" where
  "iterdir_sorted env p =
     (case os_listdir env p of
        Inl e \<Rightarrow> Inl e
      | Inr names \<Rightarrow> Inr (map (\<lambda>n. p @ [n]) (sort names)),
      [EvListdir p])"

definition open_text :: "os_env \<Rightarrow> path \<Rightarrow> text_stream io" where
  "open_text env p = (os_open env p, [EvOpen p])"

subsection \<open>The server\<close>

text \<open>
  \<open>create_filesystem_server\<close> fixes \<open>allowed_path = Path(allowed_directory).resolve()\<close>;
  the nested functions close over it. Here it is the parameter \<open>allowed_path\<close> of each
  of them.
\<close>

definition create_filesystem_server :: "os_env \<Rightarrow> string \<Rightarrow> exn + path" where
  "create_filesystem_server env allowed_directory = resolve env allowed_directory"

text \<open>
  \<open>resolve_path\<close>. \<open>os.path.isabs\<close> raises \<open>TypeError\<close> for an argument that is not a
  string.
\<close>

definition resolve_path :: "os_env \<Rightarrow> path \<Rightarrow> pyval \<Rightarrow> path io" where
  "resolve_path env allowed_path path =
     (case path of
        PStr p \<Rightarrow>
          io_bind (if isabs p then path_resolve env p
                   else path_resolve env (joinpath allowed_path p))
            (\<lambda>resolved.
               if \<not> startswith (str_path resolved) (str_path allowed_path)
               then io_raise (ValueError ''Access denied: path outside allowed directory'')
               else io_return resolved)
      | _ \<Rightarrow> io_raise (TypeError (''expected str, bytes or os.PathLike object, not ''
                 @ type_name path)))"

definition text_result :: "string \<Rightarrow> text_content list" where
  "text_result s = [TextContent ''text'' s]"

subsubsection \<open>\<open>handle_list_directory\<close>\<close>

text \<open>The line of one entry; the calls \<open>is_dir\<close>, \<open>is_file\<close>, \<open>stat\<close>, \<open>is_file\<close> in source order.\<close>

definition entry_line :: "os_env \<Rightarrow> path \<Rightarrow> string io" where
  "entry_line env entry =
     io_bind (is_dir env entry) (\<lambda>d.
     io_bind (is_file env entry) (\<lambda>f1.
     io_bind (if f1 then io_bind (path_stat env entry) (\<lambda>st. io_return (st_size st))
              else io_return 0) (\<lambda>size.
     io_bind (is_file env entry) (\<lambda>f2.
     io_return (''  ['' @ (if d then ''dir'' else ''file'') @ ''] '' @ path_name entry
                @ (if f2 then '' ('' @ str_nat size @ '' bytes)'' else []))))))"

fun list_entries :: "os_env \<Rightarrow> path list \<Rightarrow> string list io" where
  "list_entries env [] = io_return []"
| "list_entries env (entry # rest) =
     io_bind (entry_line env entry) (\<lambda>l.
     io_bind (list_entries env rest) (\<lambda>ls. io_return (l # ls)))"

definition handle_list_directory :: "os_env \<Rightarrow> path \<Rightarrow> arguments \<Rightarrow> text_content list io" where
  "handle_list_directory env allowed_path arguments =
     (let path = dict_get arguments ''path'' (PStr ''.'') in
      io_bind (resolve_path env allowed_path path) (\<lambda>dir_path.
      io_bind (path_exists env dir_path) (\<lambda>ex.
      if \<not> ex then io_return (text_result (''Directory not found: '' @ py_str path))
      else
      io_bind (is_dir env dir_path) (\<lambda>d.
      if \<not> d then io_return (text_result (''Not a directory: '' @ py_str path))
      else
      io_bind (iterdir_sorted env dir_path) (\<lambda>sorted_entries.
      io_bind (list_entries env sorted_entries) (\<lambda>entries.
      io_return (text_result
        (if entries \<noteq> []
         then ''Contents of '' @ str_path dir_path @ '':\<newline>'' @ str_join ''\<newline>'' entries
         else ''Directory '' @ str_path dir_path @ '' is empty''))))))))"

subsubsection \<open>\<open>handle_read_file\<close>\<close>

definition truncation_marker :: "pyval \<Rightarrow> string" where
  "truncation_marker max_lines = ''\<newline>... (truncated at '' @ py_str max_lines @ '' lines)''"

text \<open>
  The loop \<open>for i, line in enumerate(f)\<close>: \<open>i\<close> is the index of the next line, the third
  and fourth arguments are what the stream still holds, the last one is \<open>lines\<close>.
\<close>

fun read_lines :: "pyval \<Rightarrow> int \<Rightarrow> string list \<Rightarrow> exn option \<Rightarrow> string list
    \<Rightarrow> exn + string list" where
  "read_lines max_lines i [] err lines = (case err of None \<Rightarrow> Inr lines | Some e \<Rightarrow> Inl e)"
| "read_lines max_lines i (line # rest) err lines =
     (case int_ge i max_lines of
        Inl e \<Rightarrow> Inl e
      | Inr stop \<Rightarrow>
          if stop then Inr (lines @ [truncation_marker max_lines])
          else read_lines max_lines (i + 1) rest err (lines @ [rstrip line]))"

definition handle_read_file :: "os_env \<Rightarrow> path \<Rightarrow> arguments \<Rightarrow> text_content list io" where
  "handle_read_file env allowed_path arguments =
     (let path = dict_get arguments ''path'' PNone;
          max_lines = dict_get arguments ''max_lines'' (PInt 100)
      in
      if \<not> truthy path then io_return (text_result ''Error: path is required'')
      else
      io_bind (resolve_path env allowed_path path) (\<lambda>file_path.
      io_bind (path_exists env file_path) (\<lambda>ex.
      if \<not> ex then io_return (text_result (''File not found: '' @ py_str path))
      else
      io_bind (is_file env file_path) (\<lambda>f.
      if \<not> f then io_return (text_result (''Not a file: '' @ py_str path))
      else
      except_unicode_decode_error
        (io_bind (open_text env file_path) (\<lambda>s.
         io_bind (read_lines max_lines 0 (good_lines s) (failure s) [], []) (\<lambda>lines.
         io_return (text_result (''Contents of '' @ path_name file_path @ '':\<newline>\<newline>''
                                 @ str_join ''\<newline>'' lines)))))
        (text_result (''Error: '' @ py_str path @ '' is not a text file''))))))"

subsubsection \<open>\<open>handle_get_file_info\<close>\<close>

definition handle_get_file_info :: "os_env \<Rightarrow> path \<Rightarrow> arguments \<Rightarrow> text_content list io" where
  "handle_get_file_info env allowed_path arguments =
     (let path = dict_get arguments ''path'' PNone in
      if \<not> truthy path then io_return (text_result ''Error: path is required'')
      else
      io_bind (resolve_path env allowed_path path) (\<lambda>file_path.
      io_bind (path_exists env file_path) (\<lambda>ex.
      if \<not> ex then io_return (text_result (''Path not found: '' @ py_str path))
      else
      io_bind (path_stat env file_path) (\<lambda>stat.
      io_bind (is_dir env file_path) (\<lambda>d.
      io_bind (isoformat env (st_mtime stat), []) (\<lambda>mod_time.
      io_return (text_result (str_join ''\<newline>''
        [''Path: '' @ str_path file_path,
         ''Type: '' @ (if d then ''directory'' else ''file''),
         ''Size: '' @ str_nat (st_size stat) @ '' bytes'',
         ''Modified: '' @ mod_time]))))))))"

subsubsection \<open>\<open>call_tool\<close>\<close>

text \<open>
  The dispatch, inside \<open>try ... except Exception as e\<close>: an exception \<open>e\<close> of a handler
  becomes the text \<open>Error: \<close> followed by \<open>str(e)\<close>. The result is the list returned
  together with the calls made to the file system.
\<close>

definition call_tool :: "os_env \<Rightarrow> path \<Rightarrow> string \<Rightarrow> arguments
    \<Rightarrow> text_content list \<times> io_event list" where
  "call_tool env allowed_path name arguments =
     (case (if name = ''list_directory'' then handle_list_directory env allowed_path arguments
            else if name = ''read_file'' then handle_read_file env allowed_path arguments
            else if name = ''get_file_info'' then handle_get_file_info env allowed_path arguments
            else io_return (text_result (''Unknown tool: '' @ name))) of
        (Inr result, t) \<Rightarrow> (result, t)
      | (Inl e, t) \<Rightarrow> (text_result (''Error: '' @ exn_str e), t))"

subsection \<open>Containment, listings, and the shape of a result\<close>

text \<open>
  A resolved path lies in the allowed directory when the components of the allowed
  directory are its leading components (\<open>Path.is_relative_to\<close>): the directory itself or a
  descendant of it.
\<close>

definition is_relative_to :: "path \<Rightarrow> path \<Rightarrow> bool" where
  "is_relative_to p allowed_path = (take (length allowed_path) p = allowed_path)"

text \<open>
  The line of a listing for the entry \<open>name\<close> of \<open>dir_path\<close>, from one look at the entry:
  its kind, its name and, for a regular file only, its size in bytes. An entry that is
  neither a directory nor a regular file, or that leads nowhere (a dangling link), is shown
  as a file without a size. When the entry cannot be examined, for another reason than its
  absence, there is no line but the exception.
\<close>

definition listing_line :: "os_env \<Rightarrow> path \<Rightarrow> string \<Rightarrow> exn + string" where
  "listing_line env dir_path name =
     (case os_stat env (dir_path @ [name]) of
        Inr st \<Rightarrow>
          Inr (if st_mode st = S_IFDIR then ''  [dir] '' @ name
               else if st_mode st = S_IFREG
               then ''  [file] '' @ name @ '' ('' @ str_nat (st_size st) @ '' bytes)''
               else ''  [file] '' @ name)
      | Inl e \<Rightarrow> if ignore_error e then Inr (''  [file] '' @ name) else Inl e)"

text \<open>The lines for a list of names, or the first exception.\<close>

fun listing_lines :: "os_env \<Rightarrow> path \<Rightarrow> string list \<Rightarrow> exn + string list" where
  "listing_lines env dir_path [] = Inr []"
| "listing_lines env dir_path (name # names) =
     (case listing_line env dir_path name of
        Inl e \<Rightarrow> Inl e
      | Inr l \<Rightarrow>
          (case listing_lines env dir_path names of
             Inl e \<Rightarrow> Inl e
           | Inr ls \<Rightarrow> Inr (l # ls)))"

text \<open>A list of exactly one text content.\<close>

fun is_text :: "text_content list \<Rightarrow> bool" where
  "is_text [TextContent ty s] = (ty = ''text'')"
| "is_text cs = False"

definition text_or_raise :: "text_content list io \<Rightarrow> bool" where
  "text_or_raise m = (case fst m of Inl e \<Rightarrow> True | Inr r \<Rightarrow> is_text r)"

subsection \<open>A file system without symbolic links, as an environment\<close>

text \<open>
  A tree of regular files and directories, seen by a process that is not the superuser, on
  Linux with UTF-8 file names. A regular file has a size, a modification time, a mode that
  lets the process read it (0644) or not (0000), and a text stream. A directory has a
  size, a modification time, a mode that lets the process list and search it (0755) or not
  (0000), and its entries in the order \<open>os.listdir\<close> gives them.
\<close>

datatype node =
    File nat int bool text_stream
  | Dir nat int bool "(string \<times> node) list"

fun node_stat :: "node \<Rightarrow> stat_result" where
  "node_stat (File sz mt readable s) = \<lparr>st_mode = S_IFREG, st_size = sz, st_mtime = mt\<rparr>"
| "node_stat (Dir sz mt accessible es) = \<lparr>st_mode = S_IFDIR, st_size = sz, st_mtime = mt\<rparr>"

text \<open>
  \<open>repr(s)\<close> of a string, as the text of an \<open>OSError\<close> shows the file name: between single
  quotes, or double quotes when the string has a single quote and no double quote; the
  quote and the backslash escaped, tab, newline and carriage return as \<open>\t\<close>, \<open>\n\<close>, \<open>\r\<close>,
  every other character that is not printable as \<open>\xhh\<close>.
\<close>

definition printable :: "char \<Rightarrow> bool" where
  "printable c = (let n = (of_char c :: nat) in (32 \<le> n \<and> n < 127) \<or> (161 \<le> n \<and> n \<noteq> 173))"

definition hex_digit :: "nat \<Rightarrow> char" where
  "hex_digit d = ''0123456789abcdef'' ! d"

definition repr_char :: "char \<Rightarrow> char \<Rightarrow> string" where
  "repr_char quote c =
     (if c = quote \<or> c = CHR 0x5C then [CHR 0x5C, c]
      else if c = CHR 0x09 then [CHR 0x5C, CHR ''t'']
      else if c = CHR 0x0A then [CHR 0x5C, CHR ''n'']
      else if c = CHR 0x0D then [CHR 0x5C, CHR ''r'']
      else if printable c then [c]
      else [CHR 0x5C, CHR ''x'', hex_digit (of_char c div 16), hex_digit (of_char c mod 16)])"

definition py_repr :: "string \<Rightarrow> string" where
  "py_repr s =
     (let quote = (if CHR 0x27 \<in> set s \<and> CHR 0x22 \<notin> set s then CHR 0x22 else CHR 0x27)
      in quote # concat (map (repr_char quote) s) @ [quote])"

text \<open>\<open>OSError(errno, strerror, filename)\<close>.\<close>

definition os_error :: "nat \<Rightarrow> string \<Rightarrow> string \<Rightarrow> exn" where
  "os_error errno strerror filename =
     OSError errno (''[Errno '' @ str_nat errno @ ''] '' @ strerror @ '': '' @ py_repr filename)"

text \<open>The length in bytes of a name: a code point from U+0080 on takes two bytes.\<close>

definition fs_bytes :: "string \<Rightarrow> nat" where
  "fs_bytes s = length s + length (filter (\<lambda>c. 128 \<le> (of_char c :: nat)) s)"

text \<open>
  The walk of the kernel along the components of a path. The first argument is the node
  reached, followed by its ancestors up to the root. To go on from a node, the node has to
  be a directory (\<open>ENOTDIR\<close>); an empty component, which a separator at the start or at
  the end of the text leaves, stays at the node; to look a name up, the process has to be
  allowed to search the directory (\<open>EACCES\<close>), and the name is 255 bytes at most
  (\<open>ENAMETOOLONG\<close>) and has to be an entry of the directory (\<open>ENOENT\<close>). The parent of the
  root is the root.
\<close>

fun namei :: "node list \<Rightarrow> string list \<Rightarrow> nat \<times> string + node" where
  "namei [] cs = Inl (2, ''No such file or directory'')"
| "namei (cur # up) [] = Inr cur"
| "namei (cur # up) (c # cs) =
     (case cur of
        File sz mt readable s \<Rightarrow> Inl (20, ''Not a directory'')
      | Dir sz mt accessible es \<Rightarrow>
          if c = [] then namei (cur # up) cs
          else if \<not> accessible then Inl (13, ''Permission denied'')
          else if c = ''.'' then namei (cur # up) cs
          else if c = ''..'' then namei (if up = [] then [cur] else up) cs
          else if 255 < fs_bytes c then Inl (36, ''File name too long'')
          else (case map_of es c of
                  None \<Rightarrow> Inl (2, ''No such file or directory'')
                | Some m \<Rightarrow> namei (m # cur # up) cs))"

text \<open>
  A system call on the path \<open>p\<close>, given as the text \<open>str(p)\<close>: Python refuses a text with a
  null character, the kernel a text of 4096 bytes or more, then the kernel walks to the
  node and \<open>f\<close> is what the call does there.
\<close>

definition tree_call :: "node \<Rightarrow> path \<Rightarrow> (node \<Rightarrow> nat \<times> string + 'a) \<Rightarrow> exn + 'a" where
  "tree_call t p f =
     (let name = str_path p in
      if CHR 0x00 \<in> set name then Inl (ValueError ''embedded null byte'')
      else if 4096 \<le> fs_bytes name then Inl (os_error 36 ''File name too long'' name)
      else (case namei [t] (splitsep name) of
              Inl (errno, strerror) \<Rightarrow> Inl (os_error errno strerror name)
            | Inr n \<Rightarrow>
                (case f n of
                   Inl (errno, strerror) \<Rightarrow> Inl (os_error errno strerror name)
                 | Inr r \<Rightarrow> Inr r)))"

definition tree_stat :: "node \<Rightarrow> path \<Rightarrow> exn + stat_result" where
  "tree_stat t p = tree_call t p (\<lambda>n. Inr (node_stat n))"

definition tree_listdir :: "node \<Rightarrow> path \<Rightarrow> exn + string list" where
  "tree_listdir t p =
     tree_call t p
       (\<lambda>n. case n of
               File sz mt readable s \<Rightarrow> Inl (20, ''Not a directory'')
             | Dir sz mt accessible es \<Rightarrow>
                 if accessible then Inr (map fst es) else Inl (13, ''Permission denied''))"

definition tree_open :: "node \<Rightarrow> path \<Rightarrow> exn + text_stream" where
  "tree_open t p =
     tree_call t p
       (\<lambda>n. case n of
               File sz mt readable s \<Rightarrow>
                 if readable then Inr s else Inl (13, ''Permission denied'')
             | Dir sz mt accessible es \<Rightarrow> Inl (21, ''Is a directory''))"

text \<open>
  \<open>Path(s).resolve()\<close> for an absolute \<open>s\<close>, where there is no symbolic link: the empty
  components and \<open>.\<close> are dropped and \<open>..\<close> drops the component before it, whether the names
  exist or not. A null character in \<open>s\<close> raises \<open>ValueError\<close>.
\<close>

fun normalise :: "path \<Rightarrow> string list \<Rightarrow> path" where
  "normalise cur [] = cur"
| "normalise cur (c # rest) =
     (if c = [] \<or> c = ''.'' then normalise cur rest
      else if c = ''..'' then normalise (butlast cur) rest
      else normalise (cur @ [c]) rest)"

definition tree_resolve :: "string \<Rightarrow> exn + path" where
  "tree_resolve s =
     (if CHR 0x00 \<in> set s then Inl (ValueError ''embedded null byte'')
      else Inr (normalise [] (splitsep s)))"

text \<open>
  The date of the Gregorian calendar, as year, month and day, of a number of days since
  1970-01-01 (before it when negative). The count goes by eras of 400 years, which have
  146097 days, and by years that begin on the first of March.
\<close>

definition civil_from_days :: "int \<Rightarrow> int \<times> int \<times> int" where
  "civil_from_days days =
     (let z = days + 719468;
          era = z div 146097;
          doe = z - era * 146097;
          yoe = (doe - doe div 1460 + doe div 36524 - doe div 146096) div 365;
          doy = doe - (365 * yoe + yoe div 4 - yoe div 100);
          mp = (5 * doy + 2) div 153;
          d = doy - (153 * mp + 2) div 5 + 1;
          m = (if mp < 10 then mp + 3 else mp - 9);
          y = yoe + era * 400 + (if m \<le> 2 then 1 else 0)
      in (y, m, d))"

text \<open>
  \<open>datetime.fromtimestamp(t).isoformat()\<close> for a whole number of seconds, in the time zone
  UTC. \<open>datetime\<close> has the years 1 to 9999; for a time stamp of another year
  \<open>fromtimestamp\<close> raises, and the \<open>ValueError\<close> here is what it raises as long as the C
  library can convert the time stamp.
\<close>

definition zero_pad :: "nat \<Rightarrow> int \<Rightarrow> string" where
  "zero_pad width i = replicate (width - length (str_int i)) (CHR ''0'') @ str_int i"

definition utc_isoformat :: "int \<Rightarrow> exn + string" where
  "utc_isoformat t =
     (case civil_from_days (t div 86400) of
        (y, m, d) \<Rightarrow>
          if y < 1 \<or> 9999 < y
          then Inl (ValueError (''year '' @ str_int y @ '' is out of range''))
          else Inr (zero_pad 4 y @ ''-'' @ zero_pad 2 m @ ''-'' @ zero_pad 2 d @ ''T''
                    @ zero_pad 2 (t mod 86400 div 3600) @ '':''
                    @ zero_pad 2 (t mod 3600 div 60) @ '':'' @ zero_pad 2 (t mod 60)))"

definition tree_env :: "node \<Rightarrow> path \<Rightarrow> os_env" where
  "tree_env t c =
     \<lparr>cwd = c, resolve_abs = tree_resolve, os_stat = tree_stat t, os_listdir = tree_listdir t,
      os_open = tree_open t, isoformat = utc_isoformat\<rparr>"

text \<open>
  The allowed directory is \<open>/data\<close>. Beside it lies \<open>/data2\<close>, whose name begins with the
  same characters. \<open>/data/blob.bin\<close> is a large file: its first two lines decode, and
  invalid bytes follow in a later buffer. \<open>/data/locked\<close> is a directory of mode 0000. The
  process runs in \<open>/tmp\<close>.
\<close>

definition demo_tree :: node where
  "demo_tree =
     Dir 4096 10 True
       [(''data'', Dir 4096 11 True
           [(''notes.txt'', File 19 12 True
               (TextStream [''alpha\<newline>'', ''beta  \<newline>'', ''gamma''] None)),
            (''sub'', Dir 4096 13 True []),
            (''locked'', Dir 4096 21 False [(''key'', File 3 22 True (TextStream [''k''] None))]),
            (''blob.bin'', File 9000 14 True
               (TextStream [''a\<newline>'', ''b\<newline>'']
                  (Some (UnicodeDecodeError ''invalid start byte''))))]),
        (''data2'', Dir 4096 15 True
           [(''secret.txt'', File 10 16 True (TextStream [''top secret''] None))]),
        (''etc'', Dir 4096 17 True
           [(''passwd'', File 5 18 True (TextStream [''root\<newline>''] None))]),
        (''tmp'', Dir 4096 19 True
           [(''notes.txt'', File 6 20 True (TextStream [''other\<newline>''] None))])]"

definition demo_env :: os_env where
  "demo_env = tree_env demo_tree [''tmp'']"

text \<open>A name of 256 bytes, one more than a name may have.\<close>

definition long_name :: string where
  "long_name = replicate 256 (CHR ''a'')"

section \<open>Properties\<close>

subsection \<open>Sequencing\<close>

lemma is_text_iff: "is_text r \<longleftrightarrow> (\<exists>s. r = [TextContent ''text'' s])"
  by (cases r rule: is_text.cases) auto

lemma text_or_raise_return: "text_or_raise (io_return (text_result s))"
  by (simp add: text_or_raise_def io_return_def text_result_def)

lemma text_or_raise_raise: "text_or_raise (io_raise e)"
  by (simp add: text_or_raise_def io_raise_def)

lemma text_or_raise_bind:
  assumes "\<And>x. text_or_raise (f x)"
  shows "text_or_raise (io_bind m f)"
proof (cases m)
  case (Pair r t)
  show ?thesis
  proof (cases r)
    case (Inl e)
    with Pair show ?thesis
      by (simp add: text_or_raise_def io_bind_def)
  next
    case (Inr x)
    with Pair assms[of x] show ?thesis
      by (cases "f x") (simp add: text_or_raise_def io_bind_def)
  qed
qed

lemma text_or_raise_except:
  assumes "text_or_raise body"
  shows "text_or_raise (except_unicode_decode_error body (text_result s))"
proof (cases body)
  case (Pair r t)
  with assms show ?thesis
    by (auto simp: text_or_raise_def except_unicode_decode_error_def text_result_def
        split: sum.splits exn.splits)
qed

lemma text_or_raise_if:
  "(c \<Longrightarrow> text_or_raise a) \<Longrightarrow> (\<not> c \<Longrightarrow> text_or_raise b) \<Longrightarrow> text_or_raise (if c then a else b)"
  by simp

lemmas text_or_raise_intros =
  text_or_raise_if text_or_raise_except text_or_raise_bind text_or_raise_return
  text_or_raise_raise

lemma handle_list_directory_text:
  "text_or_raise (handle_list_directory env allowed_path arguments)"
  unfolding handle_list_directory_def Let_def
  by (intro text_or_raise_intros)

lemma handle_read_file_text:
  "text_or_raise (handle_read_file env allowed_path arguments)"
  unfolding handle_read_file_def Let_def
  by (intro text_or_raise_intros)

lemma handle_get_file_info_text:
  "text_or_raise (handle_get_file_info env allowed_path arguments)"
  unfolding handle_get_file_info_def Let_def
  by (intro text_or_raise_intros)

lemma fst_io_bind: "fst m = Inr x \<Longrightarrow> fst (io_bind m f) = fst (f x)"
  by (cases m) (simp add: io_bind_def split: prod.splits)

lemma fst_io_bind_raise: "fst m = Inl e \<Longrightarrow> fst (io_bind m f) = Inl e"
  by (cases m) (simp add: io_bind_def)

lemma io_bind_raised: "io_bind (Inl e, t) f = (Inl e, t)"
  by (simp add: io_bind_def)

lemma io_bind_pure: "io_bind (Inr x, []) f = f x"
  by (simp add: io_bind_def)

lemma fst_io_return: "fst (io_return x) = Inr x"
  by (simp add: io_return_def)

lemma fst_except_unicode_decode_error:
  "fst (except_unicode_decode_error body v) =
     (case fst body of Inl (UnicodeDecodeError m) \<Rightarrow> Inr v | r \<Rightarrow> r)"
  by (cases body) (simp add: except_unicode_decode_error_def split: sum.splits exn.splits)

lemma fst_call_tool_list_directory:
  "fst (call_tool env allowed_path ''list_directory'' arguments) =
     (case fst (handle_list_directory env allowed_path arguments) of
        Inr result \<Rightarrow> result | Inl e \<Rightarrow> text_result (''Error: '' @ exn_str e))"
  by (simp add: call_tool_def split: prod.splits sum.splits)

lemma fst_call_tool_read_file:
  "fst (call_tool env allowed_path ''read_file'' arguments) =
     (case fst (handle_read_file env allowed_path arguments) of
        Inr result \<Rightarrow> result | Inl e \<Rightarrow> text_result (''Error: '' @ exn_str e))"
  by (simp add: call_tool_def split: prod.splits sum.splits)

lemma fst_call_tool_get_file_info:
  "fst (call_tool env allowed_path ''get_file_info'' arguments) =
     (case fst (handle_get_file_info env allowed_path arguments) of
        Inr result \<Rightarrow> result | Inl e \<Rightarrow> text_result (''Error: '' @ exn_str e))"
  by (simp add: call_tool_def split: prod.splits sum.splits)

text \<open>What the three tests on a path answer, from what \<open>stat\<close> answers.\<close>

lemma fst_stat_test:
  "fst (stat_test env p test) =
     (case os_stat env p of
        Inr st \<Rightarrow> Inr (test st)
      | Inl e \<Rightarrow> if ignore_error e then Inr False else Inl e)"
  by (simp add: stat_test_def)

text \<open>
  \<open>resolve_path\<close> returns for a string only, and \<open>i >= max_lines\<close> holds or not for an
  \<open>int\<close> or a \<open>bool\<close> only.
\<close>

lemma resolve_path_str:
  "fst (resolve_path env allowed_path v) = Inr r \<Longrightarrow> \<exists>p. v = PStr p"
  by (cases v) (simp_all add: resolve_path_def io_raise_def)

lemma int_ge_number: "int_ge i v = Inr b \<Longrightarrow> (\<exists>n. v = PInt n) \<or> (\<exists>c. v = PBool c)"
  by (cases v) simp_all

subsection \<open>The file system of the examples\<close>

lemmas demo_defs = demo_env_def tree_env_def demo_tree_def tree_stat_def tree_listdir_def
  tree_open_def tree_call_def tree_resolve_def resolve_def joinpath_def posix_parts_def
  str_path_def os_error_def py_repr_def repr_char_def printable_def fs_bytes_def Let_def

lemmas eval_defs = str_nat.simps digit_char_def str_int_def rstrip_def isspace_def
  truncation_marker_def path_name_def str_path_def text_result_def

lemma demo_allowed_path: "create_filesystem_server demo_env ''/data'' = Inr [''data'']"
  by (simp add: create_filesystem_server_def demo_defs)

lemma demo_resolve_notes:
  "resolve_path demo_env [''data''] (PStr ''notes.txt'')
     = (Inr [''data'', ''notes.txt''], [EvResolve ''/data/notes.txt''])"
  by (simp add: resolve_path_def path_resolve_def startswith_def io_bind_def io_return_def
      io_raise_def demo_defs)

lemma demo_stat_notes:
  "os_stat demo_env [''data'', ''notes.txt'']
     = Inr \<lparr>st_mode = S_IFREG, st_size = 19, st_mtime = 12\<rparr>"
  by (simp add: demo_defs)

lemma demo_open_notes:
  "os_open demo_env [''data'', ''notes.txt'']
     = Inr (TextStream [''alpha\<newline>'', ''beta  \<newline>'', ''gamma''] None)"
  by (simp add: demo_defs)

lemma demo_resolve_blob:
  "resolve_path demo_env [''data''] (PStr ''blob.bin'')
     = (Inr [''data'', ''blob.bin''], [EvResolve ''/data/blob.bin''])"
  by (simp add: resolve_path_def path_resolve_def startswith_def io_bind_def io_return_def
      io_raise_def demo_defs)

lemma demo_stat_blob:
  "os_stat demo_env [''data'', ''blob.bin'']
     = Inr \<lparr>st_mode = S_IFREG, st_size = 9000, st_mtime = 14\<rparr>"
  by (simp add: demo_defs)

lemma demo_open_blob:
  "os_open demo_env [''data'', ''blob.bin'']
     = Inr (TextStream [''a\<newline>'', ''b\<newline>''] (Some (UnicodeDecodeError ''invalid start byte'')))"
  by (simp add: demo_defs)

lemma demo_resolve_dot:
  "resolve_path demo_env [''data''] (PStr ''.'') = (Inr [''data''], [EvResolve ''/data''])"
  by (simp add: resolve_path_def path_resolve_def startswith_def io_bind_def io_return_def
      io_raise_def demo_defs)

lemma demo_stat_data:
  "os_stat demo_env [''data''] = Inr \<lparr>st_mode = S_IFDIR, st_size = 4096, st_mtime = 11\<rparr>"
  by (simp add: demo_defs)

lemma demo_listdir_data:
  "os_listdir demo_env [''data''] = Inr [''notes.txt'', ''sub'', ''locked'', ''blob.bin'']"
  by (simp add: demo_defs)

subsection \<open>The boundary of \<open>call_tool\<close>\<close>

text \<open>
  C2. For every tool name and every argument dictionary, \<open>call_tool\<close> returns a list
  holding one text content: a handler either returns such a list or raises an exception,
  and \<open>call_tool\<close> turns the exception into a text. No exception leaves \<open>call_tool\<close>.
\<close>

theorem call_tool_returns_text:
  "\<exists>s. fst (call_tool env allowed_path name arguments) = [TextContent ''text'' s]"
proof -
  define m where "m =
    (if name = ''list_directory'' then handle_list_directory env allowed_path arguments
     else if name = ''read_file'' then handle_read_file env allowed_path arguments
     else if name = ''get_file_info'' then handle_get_file_info env allowed_path arguments
     else io_return (text_result (''Unknown tool: '' @ name)))"
  have "text_or_raise m"
    unfolding m_def
    by (intro text_or_raise_intros handle_list_directory_text handle_read_file_text
        handle_get_file_info_text)
  moreover have "call_tool env allowed_path name arguments =
      (case m of (Inr result, t) \<Rightarrow> (result, t)
               | (Inl e, t) \<Rightarrow> (text_result (''Error: '' @ exn_str e), t))"
    by (simp add: call_tool_def m_def)
  ultimately show ?thesis
    by (cases m) (auto simp: text_or_raise_def text_result_def is_text_iff split: sum.splits)
qed

text \<open>
  C7. A tool name other than \<open>list_directory\<close>, \<open>read_file\<close> and \<open>get_file_info\<close> gets the
  text \<open>Unknown tool: \<close> followed by the name; nothing is raised and the file system is
  not touched.
\<close>

theorem call_tool_unknown_tool:
  "name \<noteq> ''list_directory'' \<Longrightarrow> name \<noteq> ''read_file'' \<Longrightarrow> name \<noteq> ''get_file_info'' \<Longrightarrow>
   call_tool env allowed_path name arguments = (text_result (''Unknown tool: '' @ name), [])"
  by (simp add: call_tool_def io_return_def)

theorem call_tool_unknown_tool_witness:
  "''write_file'' \<noteq> ''list_directory'' \<and> ''write_file'' \<noteq> ''read_file''
   \<and> ''write_file'' \<noteq> ''get_file_info''
   \<and> call_tool demo_env [''data''] ''write_file'' [''path'' \<mapsto> PStr ''notes.txt'']
       = ([TextContent ''text'' ''Unknown tool: write_file''], [])"
  using call_tool_unknown_tool [of "''write_file''" demo_env "[''data'']"
      "[''path'' \<mapsto> PStr ''notes.txt'']"]
  by (simp add: text_result_def)

text \<open>
  C9. When the arguments of \<open>read_file\<close> or \<open>get_file_info\<close> have no \<open>path\<close> key, or have
  the empty string there, the result is the text \<open>Error: path is required\<close>, and no call
  is made to the file system: no path is resolved and nothing is read.
\<close>

theorem path_required:
  assumes "name = ''read_file'' \<or> name = ''get_file_info''"
    and "arguments ''path'' = None \<or> arguments ''path'' = Some (PStr [])"
  shows "call_tool env allowed_path name arguments = (text_result ''Error: path is required'', [])"
  using assms
  by (auto simp: call_tool_def handle_read_file_def handle_get_file_info_def dict_get_def
      io_return_def Let_def)

theorem path_required_witness:
  "call_tool demo_env [''data''] ''read_file'' [''max_lines'' \<mapsto> PInt 5]
     = ([TextContent ''text'' ''Error: path is required''], [])
   \<and> call_tool demo_env [''data''] ''get_file_info'' [''path'' \<mapsto> PStr []]
     = ([TextContent ''text'' ''Error: path is required''], [])"
  using path_required [of "''read_file''" "[''max_lines'' \<mapsto> PInt 5]" demo_env "[''data'']"]
    path_required [of "''get_file_info''" "[''path'' \<mapsto> PStr []]" demo_env "[''data'']"]
  by (simp add: text_result_def)

text \<open>
  C10. Without a \<open>max_lines\<close> argument the line cap of \<open>read_file\<close> is 100: the call
  returns what the call with \<open>max_lines = 100\<close> added to the same arguments returns, and
  makes the same calls to the file system.
\<close>

theorem read_file_default_max_lines:
  assumes "arguments ''max_lines'' = None"
  shows "call_tool env allowed_path ''read_file'' arguments
       = call_tool env allowed_path ''read_file'' (arguments(''max_lines'' \<mapsto> PInt 100))"
  using assms
  by (simp add: call_tool_def handle_read_file_def dict_get_def)

theorem read_file_default_max_lines_witness:
  "[''path'' \<mapsto> PStr ''notes.txt''] ''max_lines'' = None
   \<and> call_tool demo_env [''data''] ''read_file'' [''path'' \<mapsto> PStr ''notes.txt'']
     = call_tool demo_env [''data''] ''read_file''
         [''path'' \<mapsto> PStr ''notes.txt'', ''max_lines'' \<mapsto> PInt 100]"
  using read_file_default_max_lines [of "[''path'' \<mapsto> PStr ''notes.txt'']" demo_env "[''data'']"]
  by simp

subsection \<open>Reading a file\<close>

lemma read_lines_text:
  "i \<le> n \<Longrightarrow>
   read_lines (PInt n) i ls None acc =
     Inr (acc @ map rstrip (take (nat (n - i)) ls)
          @ (if n - i < int (length ls) then [truncation_marker (PInt n)] else []))"
proof (induction ls arbitrary: i acc)
  case Nil
  then show ?case by simp
next
  case (Cons l ls)
  show ?case
  proof (cases "i = n")
    case True
    then show ?thesis by simp
  next
    case False
    with Cons.prems have lt: "i < n" by simp
    then have "nat (n - i) = Suc (nat (n - (i + 1)))" by simp
    with lt Cons.IH[of "i + 1" "acc @ [rstrip l]"] show ?thesis
      by simp
  qed
qed

lemma read_lines_failure:
  "i \<le> n \<Longrightarrow>
   read_lines (PInt n) i ls (Some e) acc =
     (if n - i < int (length ls)
      then Inr (acc @ map rstrip (take (nat (n - i)) ls) @ [truncation_marker (PInt n)])
      else Inl e)"
proof (induction ls arbitrary: i acc)
  case Nil
  then show ?case by simp
next
  case (Cons l ls)
  show ?case
  proof (cases "i = n")
    case True
    then show ?thesis by simp
  next
    case False
    with Cons.prems have lt: "i < n" by simp
    then have "nat (n - i) = Suc (nat (n - (i + 1)))" by simp
    with lt Cons.IH[of "i + 1" "acc @ [rstrip l]"] show ?thesis
      by simp
  qed
qed

text \<open>
  C3. Let the \<open>path\<close> argument, a string that is not empty, resolve inside the allowed
  directory to a regular file that the process may read and all of whose lines decode, and
  let the line cap be \<open>n\<close>, a count (\<open>0 \<le> n\<close>), given as \<open>max_lines\<close> or by default. Then
  \<open>read_file\<close> returns the first \<open>n\<close> lines of the file at most, each without its trailing
  whitespace as \<open>rstrip\<close> leaves it, joined by newlines, and the truncation marker follows
  them exactly when the file has more than \<open>n\<close> lines; a file of at most \<open>n\<close> lines is
  returned with all its lines and no marker.
\<close>

theorem read_file_line_cap:
  assumes path: "arguments ''path'' = Some (PStr p)" "p \<noteq> []"
    and cap: "dict_get arguments ''max_lines'' (PInt 100) = PInt n" "0 \<le> n"
    and inside: "fst (resolve_path env allowed_path (PStr p)) = Inr file_path"
    and regular: "os_stat env file_path = Inr st" "st_mode st = S_IFREG"
    and readable: "os_open env file_path = Inr (TextStream ls None)"
  shows "fst (call_tool env allowed_path ''read_file'' arguments) =
           text_result (''Contents of '' @ path_name file_path @ '':\<newline>\<newline>''
             @ str_join ''\<newline>''
                 (map rstrip (take (nat n) ls)
                  @ (if n < int (length ls) then [truncation_marker (PInt n)] else [])))
         \<and> length (take (nat n) ls) \<le> nat n
         \<and> (if n < int (length ls) then take (nat n) ls \<noteq> ls else take (nat n) ls = ls)"
proof -
  have ex: "fst (path_exists env file_path) = Inr True"
    using regular by (simp add: path_exists_def fst_stat_test)
  have isf: "fst (is_file env file_path) = Inr True"
    using regular by (simp add: is_file_def fst_stat_test)
  have op: "fst (open_text env file_path) = Inr (TextStream ls None)"
    using readable by (simp add: open_text_def)
  have rl: "fst (read_lines (PInt n) 0 ls None [], [] :: io_event list) =
      Inr (map rstrip (take (nat n) ls)
           @ (if n < int (length ls) then [truncation_marker (PInt n)] else []))"
    using read_lines_text[of 0 n ls "[]"] cap by simp
  have "fst (call_tool env allowed_path ''read_file'' arguments) =
           text_result (''Contents of '' @ path_name file_path @ '':\<newline>\<newline>''
             @ str_join ''\<newline>''
                 (map rstrip (take (nat n) ls)
                  @ (if n < int (length ls) then [truncation_marker (PInt n)] else [])))"
    unfolding fst_call_tool_read_file handle_read_file_def Let_def cap
    using path
    by (simp add: dict_get_def fst_io_bind[OF inside] fst_io_bind[OF ex] fst_io_bind[OF isf]
        fst_except_unicode_decode_error fst_io_bind[OF op] fst_io_bind[OF rl] fst_io_return)
  moreover have "n < int (length ls) \<Longrightarrow> take (nat n) ls \<noteq> ls"
  proof
    assume "n < int (length ls)" "take (nat n) ls = ls"
    then have "min (length ls) (nat n) = length ls"
      by (metis length_take)
    with \<open>n < int (length ls)\<close> cap(2) show False by linarith
  qed
  ultimately show ?thesis by simp
qed

theorem read_file_line_cap_witness:
  "os_stat demo_env [''data'', ''notes.txt'']
     = Inr \<lparr>st_mode = S_IFREG, st_size = 19, st_mtime = 12\<rparr>
   \<and> os_open demo_env [''data'', ''notes.txt'']
     = Inr (TextStream [''alpha\<newline>'', ''beta  \<newline>'', ''gamma''] None)
   \<and> fst (call_tool demo_env [''data''] ''read_file''
          [''path'' \<mapsto> PStr ''notes.txt'', ''max_lines'' \<mapsto> PInt 2])
     = [TextContent ''text''
          ''Contents of notes.txt:\<newline>\<newline>alpha\<newline>beta\<newline>\<newline>... (truncated at 2 lines)'']
   \<and> fst (call_tool demo_env [''data''] ''read_file''
          [''path'' \<mapsto> PStr ''notes.txt'', ''max_lines'' \<mapsto> PInt 3])
     = [TextContent ''text'' ''Contents of notes.txt:\<newline>\<newline>alpha\<newline>beta\<newline>gamma'']"
proof -
  have r: "fst (resolve_path demo_env [''data''] (PStr ''notes.txt'')) = Inr [''data'', ''notes.txt'']"
    by (simp add: demo_resolve_notes)
  have a: "fst (call_tool demo_env [''data''] ''read_file''
          [''path'' \<mapsto> PStr ''notes.txt'', ''max_lines'' \<mapsto> PInt 2])
     = [TextContent ''text''
          ''Contents of notes.txt:\<newline>\<newline>alpha\<newline>beta\<newline>\<newline>... (truncated at 2 lines)'']"
    using read_file_line_cap [where arguments = "[''path'' \<mapsto> PStr ''notes.txt'', ''max_lines'' \<mapsto> PInt 2]"
        and p = "''notes.txt''" and n = 2, OF _ _ _ _ r demo_stat_notes _ demo_open_notes]
    by (simp add: dict_get_def eval_defs)
  have b: "fst (call_tool demo_env [''data''] ''read_file''
          [''path'' \<mapsto> PStr ''notes.txt'', ''max_lines'' \<mapsto> PInt 3])
     = [TextContent ''text'' ''Contents of notes.txt:\<newline>\<newline>alpha\<newline>beta\<newline>gamma'']"
    using read_file_line_cap [where arguments = "[''path'' \<mapsto> PStr ''notes.txt'', ''max_lines'' \<mapsto> PInt 3]"
        and p = "''notes.txt''" and n = 3, OF _ _ _ _ r demo_stat_notes _ demo_open_notes]
    by (simp add: dict_get_def eval_defs)
  from a b demo_stat_notes demo_open_notes show ?thesis by simp
qed

text \<open>
  C8, as the code has it. Let the \<open>path\<close> argument resolve inside the allowed directory to
  a readable regular file whose decoding fails after the lines \<open>ls\<close>, and let the line cap
  be \<open>n\<close> (\<open>0 \<le> n\<close>). When at most \<open>n\<close> lines decode before the invalid bytes, \<open>read_file\<close>
  returns the text that the path is not a text file. When more than \<open>n\<close> lines decode
  before them, the loop stops at the cap and the invalid bytes are never decoded:
  \<open>read_file\<close> returns the first \<open>n\<close> lines and the truncation marker. In both cases the
  result is a text and nothing is raised.
\<close>

theorem read_file_undecodable:
  assumes path: "arguments ''path'' = Some (PStr p)" "p \<noteq> []"
    and cap: "dict_get arguments ''max_lines'' (PInt 100) = PInt n" "0 \<le> n"
    and inside: "fst (resolve_path env allowed_path (PStr p)) = Inr file_path"
    and regular: "os_stat env file_path = Inr st" "st_mode st = S_IFREG"
    and undecodable: "os_open env file_path = Inr (TextStream ls (Some (UnicodeDecodeError m)))"
  shows "fst (call_tool env allowed_path ''read_file'' arguments) =
           text_result
             (if n < int (length ls)
              then ''Contents of '' @ path_name file_path @ '':\<newline>\<newline>''
                   @ str_join ''\<newline>''
                       (map rstrip (take (nat n) ls) @ [truncation_marker (PInt n)])
              else ''Error: '' @ p @ '' is not a text file'')"
proof -
  have ex: "fst (path_exists env file_path) = Inr True"
    using regular by (simp add: path_exists_def fst_stat_test)
  have isf: "fst (is_file env file_path) = Inr True"
    using regular by (simp add: is_file_def fst_stat_test)
  have op: "fst (open_text env file_path) = Inr (TextStream ls (Some (UnicodeDecodeError m)))"
    using undecodable by (simp add: open_text_def)
  have rl: "fst (read_lines (PInt n) 0 ls (Some (UnicodeDecodeError m)) [], [] :: io_event list) =
     (if n < int (length ls)
      then Inr (map rstrip (take (nat n) ls) @ [truncation_marker (PInt n)])
      else Inl (UnicodeDecodeError m))"
    using read_lines_failure[of 0 n ls "UnicodeDecodeError m" "[]"] cap by simp
  show ?thesis
  proof (cases "n < int (length ls)")
    case True
    with rl have rl': "fst (read_lines (PInt n) 0 ls (Some (UnicodeDecodeError m)) [],
        [] :: io_event list)
        = Inr (map rstrip (take (nat n) ls) @ [truncation_marker (PInt n)])"
      by simp
    show ?thesis
      unfolding fst_call_tool_read_file handle_read_file_def Let_def cap
      using path True
      by (simp add: dict_get_def fst_io_bind[OF inside] fst_io_bind[OF ex] fst_io_bind[OF isf]
          fst_except_unicode_decode_error fst_io_bind[OF op] fst_io_bind[OF rl'] fst_io_return)
  next
    case False
    with rl have rl': "fst (read_lines (PInt n) 0 ls (Some (UnicodeDecodeError m)) [],
        [] :: io_event list) = Inl (UnicodeDecodeError m)"
      by simp
    show ?thesis
      unfolding fst_call_tool_read_file handle_read_file_def Let_def cap
      using path False
      by (simp add: dict_get_def fst_io_bind[OF inside] fst_io_bind[OF ex] fst_io_bind[OF isf]
          fst_except_unicode_decode_error fst_io_bind[OF op] fst_io_bind_raise[OF rl'])
  qed
qed

theorem read_file_undecodable_witness:
  "os_open demo_env [''data'', ''blob.bin'']
     = Inr (TextStream [''a\<newline>'', ''b\<newline>''] (Some (UnicodeDecodeError ''invalid start byte'')))
   \<and> fst (call_tool demo_env [''data''] ''read_file'' [''path'' \<mapsto> PStr ''blob.bin''])
     = [TextContent ''text'' ''Error: blob.bin is not a text file'']
   \<and> fst (call_tool demo_env [''data''] ''read_file''
          [''path'' \<mapsto> PStr ''blob.bin'', ''max_lines'' \<mapsto> PInt 2])
     = [TextContent ''text'' ''Error: blob.bin is not a text file'']
   \<and> fst (call_tool demo_env [''data''] ''read_file''
          [''path'' \<mapsto> PStr ''blob.bin'', ''max_lines'' \<mapsto> PInt 0])
     = [TextContent ''text'' ''Contents of blob.bin:\<newline>\<newline>\<newline>... (truncated at 0 lines)'']"
proof -
  have r: "fst (resolve_path demo_env [''data''] (PStr ''blob.bin'')) = Inr [''data'', ''blob.bin'']"
    by (simp add: demo_resolve_blob)
  have a: "fst (call_tool demo_env [''data''] ''read_file'' [''path'' \<mapsto> PStr ''blob.bin''])
     = [TextContent ''text'' ''Error: blob.bin is not a text file'']"
    using read_file_undecodable [where arguments = "[''path'' \<mapsto> PStr ''blob.bin'']"
        and p = "''blob.bin''" and n = 100, OF _ _ _ _ r demo_stat_blob _ demo_open_blob]
    by (simp add: dict_get_def eval_defs)
  have b: "fst (call_tool demo_env [''data''] ''read_file''
          [''path'' \<mapsto> PStr ''blob.bin'', ''max_lines'' \<mapsto> PInt 2])
     = [TextContent ''text'' ''Error: blob.bin is not a text file'']"
    using read_file_undecodable [where arguments = "[''path'' \<mapsto> PStr ''blob.bin'', ''max_lines'' \<mapsto> PInt 2]"
        and p = "''blob.bin''" and n = 2, OF _ _ _ _ r demo_stat_blob _ demo_open_blob]
    by (simp add: dict_get_def eval_defs)
  have c: "fst (call_tool demo_env [''data''] ''read_file''
          [''path'' \<mapsto> PStr ''blob.bin'', ''max_lines'' \<mapsto> PInt 0])
     = [TextContent ''text'' ''Contents of blob.bin:\<newline>\<newline>\<newline>... (truncated at 0 lines)'']"
    using read_file_undecodable [where arguments = "[''path'' \<mapsto> PStr ''blob.bin'', ''max_lines'' \<mapsto> PInt 0]"
        and p = "''blob.bin''" and n = 0, OF _ _ _ _ r demo_stat_blob _ demo_open_blob]
    by (simp add: dict_get_def eval_defs)
  from a b c demo_open_blob show ?thesis by simp
qed

text \<open>
  The claim C8 as it is written fails on \<open>/data/blob.bin\<close>, whose decoding fails after two
  lines: with the line cap 1 the answer is the first line and the truncation marker, not
  the text that the path is not a text file.
\<close>

theorem undecodable_file_read_truncated:
  "os_open demo_env [''data'', ''blob.bin'']
     = Inr (TextStream [''a\<newline>'', ''b\<newline>''] (Some (UnicodeDecodeError ''invalid start byte'')))
   \<and> fst (call_tool demo_env [''data''] ''read_file''
          [''path'' \<mapsto> PStr ''blob.bin'', ''max_lines'' \<mapsto> PInt 1])
     = [TextContent ''text''
          ''Contents of blob.bin:\<newline>\<newline>a\<newline>\<newline>... (truncated at 1 lines)'']
   \<and> fst (call_tool demo_env [''data''] ''read_file''
          [''path'' \<mapsto> PStr ''blob.bin'', ''max_lines'' \<mapsto> PInt 1])
     \<noteq> [TextContent ''text'' ''Error: blob.bin is not a text file'']"
proof -
  have "fst (call_tool demo_env [''data''] ''read_file''
          [''path'' \<mapsto> PStr ''blob.bin'', ''max_lines'' \<mapsto> PInt 1])
     = [TextContent ''text''
          ''Contents of blob.bin:\<newline>\<newline>a\<newline>\<newline>... (truncated at 1 lines)'']"
    unfolding fst_call_tool_read_file handle_read_file_def Let_def
    by (simp add: dict_get_def demo_resolve_blob io_bind_def io_return_def path_exists_def
        is_file_def stat_test_def open_text_def except_unicode_decode_error_def
        demo_stat_blob demo_open_blob eval_defs)
  with demo_open_blob show ?thesis by simp
qed

subsection \<open>Listing a directory\<close>

lemma fst_entry_line:
  "fst (entry_line env (dir_path @ [name])) = listing_line env dir_path name"
proof (cases "os_stat env (dir_path @ [name])")
  case (Inl e)
  then show ?thesis
    by (simp add: entry_line_def listing_line_def is_dir_def is_file_def stat_test_def
        io_bind_def io_return_def path_name_def)
next
  case (Inr st)
  then show ?thesis
    by (cases "st_mode st")
      (simp_all add: entry_line_def listing_line_def is_dir_def is_file_def stat_test_def
        path_stat_def io_bind_def io_return_def path_name_def)
qed

lemma fst_list_entries:
  "fst (list_entries env (map (\<lambda>n. dir_path @ [n]) names)) = listing_lines env dir_path names"
proof (induction names)
  case Nil
  then show ?case by (simp add: io_return_def)
next
  case (Cons n names)
  show ?case
  proof (cases "listing_line env dir_path n")
    case (Inl e)
    with fst_entry_line[of env dir_path n] show ?thesis
      by (simp add: fst_io_bind_raise)
  next
    case l: (Inr l)
    with fst_entry_line[of env dir_path n]
    have el: "fst (entry_line env (dir_path @ [n])) = Inr l" by simp
    show ?thesis
    proof (cases "listing_lines env dir_path names")
      case (Inl e)
      with Cons.IH have "fst (list_entries env (map (\<lambda>n. dir_path @ [n]) names)) = Inl e"
        by simp
      with l Inl show ?thesis
        by (simp add: fst_io_bind[OF el] fst_io_bind_raise)
    next
      case (Inr ls)
      with Cons.IH have "fst (list_entries env (map (\<lambda>n. dir_path @ [n]) names)) = Inr ls"
        by simp
      with l Inr show ?thesis
        by (simp add: fst_io_bind[OF el] fst_io_bind fst_io_return)
    qed
  qed
qed

text \<open>A listing has one line for each name, in the order of the names.\<close>

lemma listing_lines_length:
  "listing_lines env dir_path names = Inr ls \<Longrightarrow> length ls = length names"
  by (induction names arbitrary: ls) (auto split: sum.splits)

lemma listing_lines_nth:
  "listing_lines env dir_path names = Inr ls \<Longrightarrow> i < length names \<Longrightarrow>
   listing_line env dir_path (names ! i) = Inr (ls ! i)"
proof (induction names arbitrary: ls i)
  case Nil
  then show ?case by simp
next
  case (Cons n names)
  then show ?case
    by (cases i) (auto split: sum.splits)
qed

lemma demo_resolve_locked:
  "resolve_path demo_env [''data''] (PStr ''locked'')
     = (Inr [''data'', ''locked''], [EvResolve ''/data/locked''])"
  by (simp add: resolve_path_def path_resolve_def startswith_def io_bind_def io_return_def
      io_raise_def demo_defs)

lemma demo_stat_locked:
  "os_stat demo_env [''data'', ''locked'']
     = Inr \<lparr>st_mode = S_IFDIR, st_size = 4096, st_mtime = 21\<rparr>"
  by (simp add: demo_defs)

lemma demo_listdir_locked:
  "os_listdir demo_env [''data'', ''locked'']
     = Inl (OSError 13 (''[Errno 13] Permission denied: '' @ quoted ''/data/locked''))"
  by (simp add: demo_defs quoted_def str_nat.simps digit_char_def)

lemma demo_resolve_nothing:
  "resolve_path demo_env [''data''] (PStr ''nothing'')
     = (Inr [''data'', ''nothing''], [EvResolve ''/data/nothing''])"
  by (simp add: resolve_path_def path_resolve_def startswith_def io_bind_def io_return_def
      io_raise_def demo_defs)

lemma demo_stat_nothing:
  "os_stat demo_env [''data'', ''nothing'']
     = Inl (OSError 2 (''[Errno 2] No such file or directory: '' @ quoted ''/data/nothing''))"
  by (simp add: demo_defs quoted_def str_nat.simps digit_char_def)

lemma demo_listing_lines:
  "listing_line demo_env [''data''] ''blob.bin'' = Inr ''  [file] blob.bin (9000 bytes)''"
  "listing_line demo_env [''data''] ''locked'' = Inr ''  [dir] locked''"
  "listing_line demo_env [''data''] ''notes.txt'' = Inr ''  [file] notes.txt (19 bytes)''"
  "listing_line demo_env [''data''] ''sub'' = Inr ''  [dir] sub''"
  by (simp_all add: listing_line_def demo_defs str_nat.simps digit_char_def)

text \<open>
  The claim C5 as it is written fails on \<open>/data/locked\<close>, a directory in the allowed
  directory that exists and that the process may not list: the answer is the text of the
  \<open>PermissionError\<close> that \<open>iterdir\<close> raises, not a listing.
\<close>

theorem unreadable_directory_not_listed:
  "fst (resolve_path demo_env [''data''] (PStr ''locked'')) = Inr [''data'', ''locked'']
   \<and> os_stat demo_env [''data'', ''locked'']
       = Inr \<lparr>st_mode = S_IFDIR, st_size = 4096, st_mtime = 21\<rparr>
   \<and> call_tool demo_env [''data''] ''list_directory'' [''path'' \<mapsto> PStr ''locked'']
       = ([TextContent ''text''
            (''Error: [Errno 13] Permission denied: '' @ quoted ''/data/locked'')],
          [EvResolve ''/data/locked'', EvStat [''data'', ''locked''],
           EvStat [''data'', ''locked''], EvListdir [''data'', ''locked'']])"
proof -
  have "call_tool demo_env [''data''] ''list_directory'' [''path'' \<mapsto> PStr ''locked'']
       = ([TextContent ''text''
            (''Error: [Errno 13] Permission denied: '' @ quoted ''/data/locked'')],
          [EvResolve ''/data/locked'', EvStat [''data'', ''locked''],
           EvStat [''data'', ''locked''], EvListdir [''data'', ''locked'']])"
    by (simp add: call_tool_def handle_list_directory_def Let_def dict_get_def
        demo_resolve_locked io_bind_def io_return_def path_exists_def is_dir_def
        stat_test_def iterdir_sorted_def demo_stat_locked demo_listdir_locked text_result_def)
  with demo_stat_locked show ?thesis
    by (simp add: demo_resolve_locked)
qed

text \<open>
  C5, as the code has it. Let the \<open>path\<close> argument (\<open>.\<close> when absent) resolve inside the
  allowed directory, to \<open>dir_path\<close>. When \<open>dir_path\<close> is a directory that the process can
  list and whose entries it can examine, \<open>list_directory\<close> returns one line for each entry,
  in the sorted order of the names: the kind, \<open>dir\<close> or \<open>file\<close>, the name and, for a regular
  file only, the size in bytes; for a directory without entries the text says that it is
  empty. When \<open>dir_path\<close> exists and is not a directory the text is \<open>Not a directory: \<close>
  with the argument, and when it does not exist \<open>Directory not found: \<close> with the argument.
  When a call to the file system fails for another reason than the absence of the path
  (permission denied, file name too long), the result is \<open>Error: \<close> with the text of that
  error.
\<close>

theorem list_directory_listing:
  assumes path: "dict_get arguments ''path'' (PStr ''.'') = PStr p"
    and inside: "fst (resolve_path env allowed_path (PStr p)) = Inr dir_path"
  shows "fst (call_tool env allowed_path ''list_directory'' arguments) =
     text_result
       (case os_stat env dir_path of
          Inl e \<Rightarrow>
            if ignore_error e then ''Directory not found: '' @ p else ''Error: '' @ exn_str e
        | Inr st \<Rightarrow>
            if st_mode st \<noteq> S_IFDIR then ''Not a directory: '' @ p
            else (case os_listdir env dir_path of
                    Inl e \<Rightarrow> ''Error: '' @ exn_str e
                  | Inr names \<Rightarrow>
                      (case listing_lines env dir_path (sort names) of
                         Inl e \<Rightarrow> ''Error: '' @ exn_str e
                       | Inr ls \<Rightarrow>
                           if names = [] then ''Directory '' @ str_path dir_path @ '' is empty''
                           else ''Contents of '' @ str_path dir_path @ '':\<newline>''
                                @ str_join ''\<newline>'' ls)))"
proof (cases "os_stat env dir_path")
  case (Inl e)
  show ?thesis
  proof (cases "ignore_error e")
    case True
    with Inl have ex: "fst (path_exists env dir_path) = Inr False"
      by (simp add: path_exists_def fst_stat_test)
    show ?thesis
      unfolding fst_call_tool_list_directory handle_list_directory_def Let_def path
      by (simp add: fst_io_bind[OF inside] fst_io_bind[OF ex] fst_io_return Inl True)
  next
    case False
    with Inl have ex: "fst (path_exists env dir_path) = Inl e"
      by (simp add: path_exists_def fst_stat_test)
    show ?thesis
      unfolding fst_call_tool_list_directory handle_list_directory_def Let_def path
      by (simp add: fst_io_bind[OF inside] fst_io_bind_raise[OF ex] Inl False)
  qed
next
  case (Inr st)
  then have ex: "fst (path_exists env dir_path) = Inr True"
    by (simp add: path_exists_def fst_stat_test)
  show ?thesis
  proof (cases "st_mode st = S_IFDIR")
    case False
    with Inr have d: "fst (is_dir env dir_path) = Inr False"
      by (simp add: is_dir_def fst_stat_test)
    show ?thesis
      unfolding fst_call_tool_list_directory handle_list_directory_def Let_def path
      by (simp add: fst_io_bind[OF inside] fst_io_bind[OF ex] fst_io_bind[OF d]
          fst_io_return Inr False)
  next
    case True
    with Inr have d: "fst (is_dir env dir_path) = Inr True"
      by (simp add: is_dir_def fst_stat_test)
    show ?thesis
    proof (cases "os_listdir env dir_path")
      case e: (Inl e)
      then have it: "fst (iterdir_sorted env dir_path) = Inl e"
        by (simp add: iterdir_sorted_def)
      show ?thesis
        unfolding fst_call_tool_list_directory handle_list_directory_def Let_def path
        by (simp add: fst_io_bind[OF inside] fst_io_bind[OF ex] fst_io_bind[OF d]
            fst_io_bind_raise[OF it] Inr True e)
    next
      case names: (Inr names)
      then have it: "fst (iterdir_sorted env dir_path)
          = Inr (map (\<lambda>n. dir_path @ [n]) (sort names))"
        by (simp add: iterdir_sorted_def)
      show ?thesis
      proof (cases "listing_lines env dir_path (sort names)")
        case e: (Inl e)
        with fst_list_entries[of env dir_path "sort names"]
        have le: "fst (list_entries env (map (\<lambda>n. dir_path @ [n]) (sort names))) = Inl e"
          by simp
        show ?thesis
          unfolding fst_call_tool_list_directory handle_list_directory_def Let_def path
          by (simp add: fst_io_bind[OF inside] fst_io_bind[OF ex] fst_io_bind[OF d]
              fst_io_bind[OF it] fst_io_bind_raise[OF le] Inr True names e)
      next
        case ls: (Inr ls)
        with fst_list_entries[of env dir_path "sort names"]
        have le: "fst (list_entries env (map (\<lambda>n. dir_path @ [n]) (sort names))) = Inr ls"
          by simp
        from listing_lines_length[OF ls] have "ls = [] \<longleftrightarrow> names = []"
          by (metis length_0_conv length_sort)
        then show ?thesis
          unfolding fst_call_tool_list_directory handle_list_directory_def Let_def path
          by (simp add: fst_io_bind[OF inside] fst_io_bind[OF ex] fst_io_bind[OF d]
              fst_io_bind[OF it] fst_io_bind[OF le] fst_io_return Inr True names ls)
      qed
    qed
  qed
qed

theorem list_directory_listing_witness:
  "fst (resolve_path demo_env [''data''] (PStr ''.'')) = Inr [''data'']
   \<and> os_listdir demo_env [''data''] = Inr [''notes.txt'', ''sub'', ''locked'', ''blob.bin'']
   \<and> fst (call_tool demo_env [''data''] ''list_directory'' Map.empty)
     = [TextContent ''text''
          ''Contents of /data:\<newline>  [file] blob.bin (9000 bytes)\<newline>  [dir] locked\<newline>  [file] notes.txt (19 bytes)\<newline>  [dir] sub'']
   \<and> fst (call_tool demo_env [''data''] ''list_directory'' [''path'' \<mapsto> PStr ''notes.txt''])
     = [TextContent ''text'' ''Not a directory: notes.txt'']
   \<and> fst (call_tool demo_env [''data''] ''list_directory'' [''path'' \<mapsto> PStr ''nothing''])
     = [TextContent ''text'' ''Directory not found: nothing'']"
proof -
  have r: "fst (resolve_path demo_env [''data''] (PStr ''.'')) = Inr [''data'']"
    by (simp add: demo_resolve_dot)
  have r': "fst (resolve_path demo_env [''data''] (PStr ''notes.txt'')) = Inr [''data'', ''notes.txt'']"
    by (simp add: demo_resolve_notes)
  have r'': "fst (resolve_path demo_env [''data''] (PStr ''nothing'')) = Inr [''data'', ''nothing'']"
    by (simp add: demo_resolve_nothing)
  have a: "fst (call_tool demo_env [''data''] ''list_directory'' Map.empty)
     = [TextContent ''text''
          ''Contents of /data:\<newline>  [file] blob.bin (9000 bytes)\<newline>  [dir] locked\<newline>  [file] notes.txt (19 bytes)\<newline>  [dir] sub'']"
    using list_directory_listing [where arguments = Map.empty and p = "''.''", OF _ r]
    by (simp add: dict_get_def demo_stat_data demo_listdir_data demo_listing_lines str_path_def
        text_result_def)
  have b: "fst (call_tool demo_env [''data''] ''list_directory'' [''path'' \<mapsto> PStr ''notes.txt''])
     = [TextContent ''text'' ''Not a directory: notes.txt'']"
    using list_directory_listing [where arguments = "[''path'' \<mapsto> PStr ''notes.txt'']"
        and p = "''notes.txt''", OF _ r']
    by (simp add: dict_get_def demo_stat_notes text_result_def)
  have c: "fst (call_tool demo_env [''data''] ''list_directory'' [''path'' \<mapsto> PStr ''nothing''])
     = [TextContent ''text'' ''Directory not found: nothing'']"
    using list_directory_listing [where arguments = "[''path'' \<mapsto> PStr ''nothing'']"
        and p = "''nothing''", OF _ r'']
    by (simp add: dict_get_def demo_stat_nothing text_result_def)
  from r a b c demo_listdir_data show ?thesis by simp
qed

subsection \<open>The metadata of a path\<close>

lemma splitsep_no_separator: "CHR ''/'' \<notin> set s \<Longrightarrow> splitsep s = [s]"
  by (induction s) auto

lemma long_name_head: "long_name = CHR ''a'' # replicate 255 (CHR ''a'')"
proof -
  have "(256::nat) = Suc 255" by simp
  then show ?thesis
    unfolding long_name_def by (simp only: replicate_Suc)
qed

lemma long_name_length: "length long_name = 256"
  by (simp add: long_name_def)

lemma long_name_set: "set long_name = {CHR ''a''}"
  by (simp add: long_name_def)

lemma long_name_neq:
  "long_name \<noteq> []" "long_name \<noteq> ''.''" "long_name \<noteq> ''..''"
  "long_name \<noteq> ''notes.txt''" "long_name \<noteq> ''sub''" "long_name \<noteq> ''locked''"
  "long_name \<noteq> ''blob.bin''"
  by (simp_all add: long_name_head)

lemma long_name_bytes: "fs_bytes long_name = 256"
proof -
  have "filter (\<lambda>c. 128 \<le> (of_char c :: nat)) (replicate n (CHR ''a'')) = []" for n
    by (induction n) simp_all
  then show ?thesis
    by (simp add: fs_bytes_def long_name_def)
qed

lemma splitsep_long_name: "splitsep long_name = [long_name]"
  by (simp add: splitsep_no_separator long_name_set)

lemma repr_long_name: "concat (map (repr_char (CHR 0x27)) long_name) = long_name"
proof -
  have "repr_char (CHR 0x27) (CHR ''a'') = ''a''"
    by (simp add: repr_char_def printable_def)
  then have "concat (map (repr_char (CHR 0x27)) (replicate n (CHR ''a''))) = replicate n (CHR ''a'')"
    for n
    by (induction n) simp_all
  then show ?thesis by (simp add: long_name_def)
qed

lemma not_isabs_long_name: "\<not> isabs long_name"
  by (simp add: long_name_head)

lemma demo_join_long_name: "joinpath [''data''] long_name = ''/data/'' @ long_name"
  by (simp add: joinpath_def posix_parts_def str_path_def splitsep_long_name long_name_neq)

lemma demo_resolve_abs_long_name:
  "resolve demo_env (''/data/'' @ long_name) = Inr [''data'', long_name]"
  by (simp add: demo_env_def tree_env_def tree_resolve_def resolve_def splitsep_long_name
      long_name_neq long_name_set)

lemma demo_resolve_long_name:
  "resolve_path demo_env [''data''] (PStr long_name)
     = (Inr [''data'', long_name], [EvResolve (''/data/'' @ long_name)])"
  by (simp add: resolve_path_def path_resolve_def not_isabs_long_name demo_join_long_name
      demo_resolve_abs_long_name[simplified] io_bind_def io_return_def io_raise_def
      startswith_def str_path_def)

lemma demo_stat_long_name:
  "os_stat demo_env [''data'', long_name]
     = Inl (OSError 36 (''[Errno 36] File name too long: '' @ quoted (''/data/'' @ long_name)))"
proof -
  have name: "str_path [''data'', long_name] = ''/data/'' @ long_name"
    by (simp add: str_path_def)
  have bytes: "fs_bytes (''/data/'' @ long_name) = 262"
    using long_name_bytes by (simp add: fs_bytes_def)
  have null: "CHR 0x00 \<notin> set (''/data/'' @ long_name)"
    by (simp add: long_name_set)
  have walk: "namei [demo_tree] (splitsep (''/data/'' @ long_name)) = Inl (36, ''File name too long'')"
    by (simp add: demo_tree_def splitsep_long_name long_name_neq long_name_bytes)
  have repr: "py_repr (''/data/'' @ long_name) = quoted (''/data/'' @ long_name)"
    by (simp add: py_repr_def Let_def long_name_set repr_char_def printable_def repr_long_name
        quoted_def)
  have errno: "str_nat 36 = ''36''"
    by (simp add: str_nat.simps digit_char_def)
  have "tree_stat demo_tree [''data'', long_name]
     = Inl (os_error 36 ''File name too long'' (''/data/'' @ long_name))"
    unfolding tree_stat_def tree_call_def Let_def name
    using null bytes walk by (simp only: if_False) simp
  then show ?thesis
    by (simp add: demo_env_def tree_env_def os_error_def repr[simplified] errno quoted_def)
qed

text \<open>
  The claim C6 as it is written fails on a path with a name of 256 bytes. No entry of
  \<open>/data\<close> has that name, so the path does not exist; \<open>Path.exists\<close> raises the
  \<open>OSError\<close> of \<open>stat\<close> again, whose \<open>errno\<close> is \<open>ENAMETOOLONG\<close>, and the answer is the text
  of that error, not a text that the path was not found.
\<close>

theorem long_name_not_reported_missing:
  "os_listdir demo_env [''data''] = Inr [''notes.txt'', ''sub'', ''locked'', ''blob.bin'']
   \<and> long_name \<notin> set [''notes.txt'', ''sub'', ''locked'', ''blob.bin'']
   \<and> call_tool demo_env [''data''] ''get_file_info'' [''path'' \<mapsto> PStr long_name]
       = ([TextContent ''text''
            (''Error: [Errno 36] File name too long: '' @ quoted (''/data/'' @ long_name))],
          [EvResolve (''/data/'' @ long_name), EvStat [''data'', long_name]])
   \<and> fst (call_tool demo_env [''data''] ''get_file_info'' [''path'' \<mapsto> PStr long_name])
       \<noteq> [TextContent ''text'' (''Path not found: '' @ long_name)]"
proof -
  have absent: "long_name \<notin> set [''notes.txt'', ''sub'', ''locked'', ''blob.bin'']"
    by (simp add: long_name_neq)
  have "call_tool demo_env [''data''] ''get_file_info'' [''path'' \<mapsto> PStr long_name]
       = ([TextContent ''text''
            (''Error: [Errno 36] File name too long: '' @ quoted (''/data/'' @ long_name))],
          [EvResolve (''/data/'' @ long_name), EvStat [''data'', long_name]])"
    by (simp add: call_tool_def handle_get_file_info_def Let_def dict_get_def long_name_neq
        demo_resolve_long_name io_bind_def io_return_def path_exists_def stat_test_def
        demo_stat_long_name text_result_def)
  with absent demo_listdir_data show ?thesis
    by simp
qed

text \<open>
  C6, as the code has it. Let the \<open>path\<close> argument, a string that is not empty, resolve
  inside the allowed directory, to \<open>file_path\<close>. When the process can read the status of
  \<open>file_path\<close> and render its modification time, \<open>get_file_info\<close> returns four lines: the
  resolved path, the kind (\<open>directory\<close> for a directory, \<open>file\<close> otherwise), the size in
  bytes and the modification time. When \<open>file_path\<close> does not exist the text is
  \<open>Path not found: \<close> with the argument. When the status cannot be read for another reason
  than the absence of the path (file name too long, permission denied), or the
  modification time cannot be rendered, the result is \<open>Error: \<close> with the text of that
  error.
\<close>

theorem get_file_info_text:
  assumes path: "arguments ''path'' = Some (PStr p)" "p \<noteq> []"
    and inside: "fst (resolve_path env allowed_path (PStr p)) = Inr file_path"
  shows "fst (call_tool env allowed_path ''get_file_info'' arguments) =
     text_result
       (case os_stat env file_path of
          Inl e \<Rightarrow> if ignore_error e then ''Path not found: '' @ p else ''Error: '' @ exn_str e
        | Inr st \<Rightarrow>
            (case isoformat env (st_mtime st) of
               Inl e \<Rightarrow> ''Error: '' @ exn_str e
             | Inr mod_time \<Rightarrow>
                 ''Path: '' @ str_path file_path @ ''\<newline>''
                 @ ''Type: '' @ (if st_mode st = S_IFDIR then ''directory'' else ''file'')
                 @ ''\<newline>''
                 @ ''Size: '' @ str_nat (st_size st) @ '' bytes'' @ ''\<newline>''
                 @ ''Modified: '' @ mod_time))"
proof (cases "os_stat env file_path")
  case (Inl e)
  show ?thesis
  proof (cases "ignore_error e")
    case True
    with Inl have ex: "fst (path_exists env file_path) = Inr False"
      by (simp add: path_exists_def fst_stat_test)
    show ?thesis
      unfolding fst_call_tool_get_file_info handle_get_file_info_def Let_def
      using path
      by (simp add: dict_get_def fst_io_bind[OF inside] fst_io_bind[OF ex] fst_io_return
          Inl True)
  next
    case False
    with Inl have ex: "fst (path_exists env file_path) = Inl e"
      by (simp add: path_exists_def fst_stat_test)
    show ?thesis
      unfolding fst_call_tool_get_file_info handle_get_file_info_def Let_def
      using path
      by (simp add: dict_get_def fst_io_bind[OF inside] fst_io_bind_raise[OF ex] Inl False)
  qed
next
  case (Inr st)
  then have ex: "fst (path_exists env file_path) = Inr True"
    by (simp add: path_exists_def fst_stat_test)
  from Inr have ps: "fst (path_stat env file_path) = Inr st"
    by (simp add: path_stat_def)
  from Inr have d: "fst (is_dir env file_path) = Inr (st_mode st = S_IFDIR)"
    by (simp add: is_dir_def fst_stat_test)
  show ?thesis
  proof (cases "isoformat env (st_mtime st)")
    case e: (Inl e)
    show ?thesis
      unfolding fst_call_tool_get_file_info handle_get_file_info_def Let_def
      using path
      by (simp add: dict_get_def fst_io_bind[OF inside] fst_io_bind[OF ex] fst_io_bind[OF ps]
          fst_io_bind[OF d] io_bind_raised Inr e)
  next
    case t: (Inr mod_time)
    show ?thesis
      unfolding fst_call_tool_get_file_info handle_get_file_info_def Let_def
      using path
      by (simp add: dict_get_def fst_io_bind[OF inside] fst_io_bind[OF ex] fst_io_bind[OF ps]
          fst_io_bind[OF d] io_bind_pure fst_io_return Inr t)
  qed
qed

lemma civil_epoch: "civil_from_days 0 = (1970, 1, 1)"
  unfolding civil_from_days_def Let_def by simp

lemma demo_isoformat:
  "isoformat demo_env 12 = Inr ''1970-01-01T00:00:12''"
  "isoformat demo_env 11 = Inr ''1970-01-01T00:00:11''"
  by (simp_all add: demo_env_def tree_env_def utc_isoformat_def civil_epoch zero_pad_def
      str_int_def str_nat.simps digit_char_def)

theorem get_file_info_text_witness:
  "fst (resolve_path demo_env [''data''] (PStr ''notes.txt'')) = Inr [''data'', ''notes.txt'']
   \<and> fst (call_tool demo_env [''data''] ''get_file_info'' [''path'' \<mapsto> PStr ''notes.txt''])
     = [TextContent ''text''
         ''Path: /data/notes.txt\<newline>Type: file\<newline>Size: 19 bytes\<newline>Modified: 1970-01-01T00:00:12'']
   \<and> fst (call_tool demo_env [''data''] ''get_file_info'' [''path'' \<mapsto> PStr ''.''])
     = [TextContent ''text''
         ''Path: /data\<newline>Type: directory\<newline>Size: 4096 bytes\<newline>Modified: 1970-01-01T00:00:11'']
   \<and> fst (call_tool demo_env [''data''] ''get_file_info'' [''path'' \<mapsto> PStr ''nothing''])
     = [TextContent ''text'' ''Path not found: nothing'']"
proof -
  have r: "fst (resolve_path demo_env [''data''] (PStr ''notes.txt'')) = Inr [''data'', ''notes.txt'']"
    by (simp add: demo_resolve_notes)
  have r': "fst (resolve_path demo_env [''data''] (PStr ''.'')) = Inr [''data'']"
    by (simp add: demo_resolve_dot)
  have r'': "fst (resolve_path demo_env [''data''] (PStr ''nothing'')) = Inr [''data'', ''nothing'']"
    by (simp add: demo_resolve_nothing)
  have a: "fst (call_tool demo_env [''data''] ''get_file_info'' [''path'' \<mapsto> PStr ''notes.txt''])
     = [TextContent ''text''
         ''Path: /data/notes.txt\<newline>Type: file\<newline>Size: 19 bytes\<newline>Modified: 1970-01-01T00:00:12'']"
    using get_file_info_text [where arguments = "[''path'' \<mapsto> PStr ''notes.txt'']"
        and p = "''notes.txt''", OF _ _ r]
    by (simp add: demo_stat_notes demo_isoformat eval_defs)
  have b: "fst (call_tool demo_env [''data''] ''get_file_info'' [''path'' \<mapsto> PStr ''.''])
     = [TextContent ''text''
         ''Path: /data\<newline>Type: directory\<newline>Size: 4096 bytes\<newline>Modified: 1970-01-01T00:00:11'']"
    using get_file_info_text [where arguments = "[''path'' \<mapsto> PStr ''.'']"
        and p = "''.''", OF _ _ r']
    by (simp add: demo_stat_data demo_isoformat eval_defs)
  have c: "fst (call_tool demo_env [''data''] ''get_file_info'' [''path'' \<mapsto> PStr ''nothing''])
     = [TextContent ''text'' ''Path not found: nothing'']"
    using get_file_info_text [where arguments = "[''path'' \<mapsto> PStr ''nothing'']"
        and p = "''nothing''", OF _ _ r'']
    by (simp add: demo_stat_nothing text_result_def)
  from r a b c show ?thesis by simp
qed

subsection \<open>Resolving a path argument\<close>

lemma isabs_str_path: "isabs (str_path a)"
  by (cases a) (simp_all add: str_path_def)

lemma isabs_joinpath: "isabs (joinpath a p)"
  by (simp add: joinpath_def isabs_str_path)

lemma demo_resolve_relative: "resolve demo_env ''notes.txt'' = Inr [''tmp'', ''notes.txt'']"
  by (simp add: demo_defs)

lemma demo_resolve_abs_notes: "resolve_abs demo_env ''/data/notes.txt'' = Inr [''data'', ''notes.txt'']"
  by (simp add: demo_defs)

text \<open>
  C4. A path argument that is not absolute is joined to the allowed directory before it is
  resolved: the one path resolved is \<open>allowed_path / p\<close>, which is absolute, so that its
  resolution does not look at the current working directory of the process, and the outcome
  of \<open>resolve_path\<close> is the same whatever that directory is. What \<open>resolve_path\<close> returns is
  the resolution of \<open>allowed_path / p\<close> when its text begins with the text of the allowed
  directory, the access-denied error when it does not, and the error of the resolution when
  it fails.
\<close>

theorem relative_path_from_allowed_path:
  assumes "\<not> isabs p"
  shows "resolve_path (env\<lparr>cwd := c\<rparr>) allowed_path (PStr p)
           = resolve_path env allowed_path (PStr p)
       \<and> snd (resolve_path env allowed_path (PStr p)) = [EvResolve (joinpath allowed_path p)]
       \<and> isabs (joinpath allowed_path p)
       \<and> joinpath allowed_path p = str_path (allowed_path @ posix_parts p)
       \<and> resolve env (joinpath allowed_path p) = resolve_abs env (joinpath allowed_path p)
       \<and> fst (resolve_path env allowed_path (PStr p))
           = (case resolve env (joinpath allowed_path p) of
                Inl e \<Rightarrow> Inl e
              | Inr resolved \<Rightarrow>
                  if startswith (str_path resolved) (str_path allowed_path) then Inr resolved
                  else Inl (ValueError ''Access denied: path outside allowed directory''))"
proof -
  have a: "resolve (env\<lparr>cwd := c\<rparr>) (joinpath allowed_path p) = resolve env (joinpath allowed_path p)"
    by (simp add: resolve_def isabs_joinpath)
  have b: "resolve env (joinpath allowed_path p) = resolve_abs env (joinpath allowed_path p)"
    by (simp add: resolve_def isabs_joinpath)
  have c: "joinpath allowed_path p = str_path (allowed_path @ posix_parts p)"
    by (simp add: joinpath_def)
  from assms a have
    "resolve_path (env\<lparr>cwd := c\<rparr>) allowed_path (PStr p) = resolve_path env allowed_path (PStr p)"
    by (simp add: resolve_path_def path_resolve_def)
  moreover from assms have
    "snd (resolve_path env allowed_path (PStr p)) = [EvResolve (joinpath allowed_path p)]"
    by (simp add: resolve_path_def path_resolve_def io_bind_def io_raise_def io_return_def
        split: sum.splits)
  moreover from assms have "fst (resolve_path env allowed_path (PStr p))
           = (case resolve env (joinpath allowed_path p) of
                Inl e \<Rightarrow> Inl e
              | Inr resolved \<Rightarrow>
                  if startswith (str_path resolved) (str_path allowed_path) then Inr resolved
                  else Inl (ValueError ''Access denied: path outside allowed directory''))"
    by (simp add: resolve_path_def path_resolve_def io_bind_def io_raise_def io_return_def
        split: sum.splits)
  ultimately show ?thesis
    using b c isabs_joinpath[of allowed_path p] by blast
qed

theorem relative_path_from_allowed_path_witness:
  "\<not> isabs ''notes.txt''
   \<and> cwd demo_env = [''tmp'']
   \<and> resolve demo_env ''notes.txt'' = Inr [''tmp'', ''notes.txt'']
   \<and> joinpath [''data''] ''notes.txt'' = ''/data/notes.txt''
   \<and> resolve_abs demo_env ''/data/notes.txt'' = Inr [''data'', ''notes.txt'']
   \<and> resolve_path demo_env [''data''] (PStr ''notes.txt'')
       = (Inr [''data'', ''notes.txt''], [EvResolve ''/data/notes.txt''])
   \<and> resolve_path (demo_env\<lparr>cwd := [''etc'']\<rparr>) [''data''] (PStr ''notes.txt'')
       = (Inr [''data'', ''notes.txt''], [EvResolve ''/data/notes.txt''])"
proof -
  have n: "\<not> isabs ''notes.txt''"
    by simp
  have w: "cwd demo_env = [''tmp'']"
    by (simp add: demo_env_def tree_env_def)
  have j: "joinpath [''data''] ''notes.txt'' = ''/data/notes.txt''"
    by (simp add: joinpath_def posix_parts_def str_path_def)
  have "resolve_path (demo_env\<lparr>cwd := [''etc'']\<rparr>) [''data''] (PStr ''notes.txt'')
      = resolve_path demo_env [''data''] (PStr ''notes.txt'')"
    using relative_path_from_allowed_path [where p = "''notes.txt''" and env = demo_env
      and c = "[''etc'']" and allowed_path = "[''data'']", OF n]
    by (rule conjunct1)
  then have c: "resolve_path (demo_env\<lparr>cwd := [''etc'']\<rparr>) [''data''] (PStr ''notes.txt'')
      = (Inr [''data'', ''notes.txt''], [EvResolve ''/data/notes.txt''])"
    by (simp only: demo_resolve_notes)
  show ?thesis
    by (simp only: n w j c demo_resolve_relative demo_resolve_abs_notes demo_resolve_notes
        simp_thms)
qed

subsection \<open>Confinement to the allowed directory\<close>

text \<open>
  What \<open>resolve_path\<close> tests is that the text of the resolved path begins with the text of
  the allowed directory. Every path in the allowed directory passes the test.
\<close>

lemma is_relative_to_startswith:
  assumes "is_relative_to p allowed_path"
  shows "startswith (str_path p) (str_path allowed_path)"
proof (cases allowed_path)
  case Nil
  then show ?thesis
    by (cases p) (simp_all add: startswith_def str_path_def)
next
  case (Cons c cs)
  from assms have "p = allowed_path @ drop (length allowed_path) p"
    by (metis append_take_drop_id is_relative_to_def)
  then obtain r where p: "p = allowed_path @ r" ..
  with Cons show ?thesis
    by (simp add: startswith_def str_path_def)
qed

text \<open>
  A path that resolves to a text without that beginning is refused by each of the three
  tools: the result is the access-denied text, and the resolution is the only call made to
  the file system.
\<close>

lemma resolve_path_denied:
  assumes "resolve env (if isabs p then p else joinpath allowed_path p) = Inr resolved"
    and "\<not> startswith (str_path resolved) (str_path allowed_path)"
  shows "resolve_path env allowed_path (PStr p)
       = (Inl (ValueError ''Access denied: path outside allowed directory''),
          [EvResolve (if isabs p then p else joinpath allowed_path p)])"
  using assms
  by (cases "isabs p") (simp_all add: resolve_path_def path_resolve_def io_bind_def io_raise_def)

lemma access_denied_outside_prefix:
  assumes tool: "name = ''list_directory'' \<or> name = ''read_file'' \<or> name = ''get_file_info''"
    and path: "dict_get arguments ''path'' (if name = ''list_directory'' then PStr ''.'' else PNone)
                 = PStr p"
      "name = ''list_directory'' \<or> p \<noteq> []"
    and resolved: "resolve env (if isabs p then p else joinpath allowed_path p) = Inr resolved"
    and outside: "\<not> startswith (str_path resolved) (str_path allowed_path)"
  shows "call_tool env allowed_path name arguments
       = (text_result ''Error: Access denied: path outside allowed directory'',
          [EvResolve (if isabs p then p else joinpath allowed_path p)])"
proof -
  note d = resolve_path_denied[OF resolved outside]
  from tool show ?thesis
  proof (elim disjE)
    assume "name = ''list_directory''"
    with path show ?thesis
      by (simp add: call_tool_def handle_list_directory_def Let_def d io_bind_raised)
  next
    assume "name = ''read_file''"
    with path show ?thesis
      by (simp add: call_tool_def handle_read_file_def Let_def d io_bind_raised)
  next
    assume "name = ''get_file_info''"
    with path show ?thesis
      by (simp add: call_tool_def handle_get_file_info_def Let_def d io_bind_raised)
  qed
qed

lemma demo_parent_denied:
  "call_tool demo_env [''data''] ''read_file'' [''path'' \<mapsto> PStr ''../etc/passwd'']
     = ([TextContent ''text'' ''Error: Access denied: path outside allowed directory''],
        [EvResolve ''/data/../etc/passwd''])"
proof -
  have "resolve demo_env (joinpath [''data''] ''../etc/passwd'') = Inr [''etc'', ''passwd'']"
    by (simp add: demo_defs)
  then show ?thesis
    using access_denied_outside_prefix [where name = "''read_file''" and p = "''../etc/passwd''"
        and arguments = "[''path'' \<mapsto> PStr ''../etc/passwd'']" and env = demo_env
        and allowed_path = "[''data'']" and resolved = "[''etc'', ''passwd'']"]
    by (simp add: dict_get_def startswith_def str_path_def joinpath_def posix_parts_def
        text_result_def)
qed

lemma demo_stat_secret:
  "os_stat demo_env [''data2'', ''secret.txt'']
     = Inr \<lparr>st_mode = S_IFREG, st_size = 10, st_mtime = 16\<rparr>"
  by (simp add: demo_defs)

lemma demo_open_secret:
  "os_open demo_env [''data2'', ''secret.txt''] = Inr (TextStream [''top secret''] None)"
  by (simp add: demo_defs)

text \<open>
  C1 does not hold of the code. The allowed directory is \<open>/data\<close>. The path
  \<open>/data2/secret.txt\<close> resolves to itself, which is not in \<open>/data\<close>; its text begins with
  \<open>/data\<close>, so \<open>resolve_path\<close> lets it through, and \<open>read_file\<close> opens the file and returns
  its content where the claim has the access-denied text and no call to the file system
  after the resolution.
\<close>

theorem sibling_directory_not_denied:
  "create_filesystem_server demo_env ''/data'' = Inr [''data'']
   \<and> resolve demo_env ''/data2/secret.txt'' = Inr [''data2'', ''secret.txt'']
   \<and> \<not> is_relative_to [''data2'', ''secret.txt''] [''data'']
   \<and> call_tool demo_env [''data''] ''read_file'' [''path'' \<mapsto> PStr ''/data2/secret.txt'']
       = ([TextContent ''text'' ''Contents of secret.txt:\<newline>\<newline>top secret''],
          [EvResolve ''/data2/secret.txt'', EvStat [''data2'', ''secret.txt''],
           EvStat [''data2'', ''secret.txt''], EvOpen [''data2'', ''secret.txt'']])"
proof -
  have r: "resolve demo_env ''/data2/secret.txt'' = Inr [''data2'', ''secret.txt'']"
    by (simp add: demo_defs)
  have rp: "resolve_path demo_env [''data''] (PStr ''/data2/secret.txt'')
      = (Inr [''data2'', ''secret.txt''], [EvResolve ''/data2/secret.txt''])"
    by (simp add: resolve_path_def path_resolve_def r str_path_def startswith_def io_bind_def
        io_return_def io_raise_def)
  have "call_tool demo_env [''data''] ''read_file'' [''path'' \<mapsto> PStr ''/data2/secret.txt'']
       = ([TextContent ''text'' ''Contents of secret.txt:\<newline>\<newline>top secret''],
          [EvResolve ''/data2/secret.txt'', EvStat [''data2'', ''secret.txt''],
           EvStat [''data2'', ''secret.txt''], EvOpen [''data2'', ''secret.txt'']])"
    by (simp add: call_tool_def handle_read_file_def Let_def dict_get_def rp io_bind_def
        io_return_def path_exists_def is_file_def stat_test_def open_text_def
        except_unicode_decode_error_def demo_stat_secret demo_open_secret rstrip_def
        isspace_def path_name_def text_result_def)
  with r demo_allowed_path show ?thesis
    by (simp add: is_relative_to_def)
qed

end
